theory Spec2Isabelle
  imports Main "HOL-Library.Word" "HOL-Library.AList"
begin

unbundle bit_operations_syntax

section \<open>The bytecode emitter: \<open>vm/builder.go\<close>\<close>

subsection \<open>Kinds, register classes, instructions\<close>

text \<open>
  Go's \<open>reflect.Kind\<close>, in the order of its declaration. \<open>kind_num\<close> is the numeric
  value of a kind, which \<open>End\<close> compares (\<open>reflect.Int <= kind && kind <= reflect.Uint64\<close>).
\<close>

datatype Kind =
    reflect_Invalid | reflect_Bool
  | reflect_Int | reflect_Int8 | reflect_Int16 | reflect_Int32 | reflect_Int64
  | reflect_Uint | reflect_Uint8 | reflect_Uint16 | reflect_Uint32 | reflect_Uint64
  | reflect_Uintptr
  | reflect_Float32 | reflect_Float64 | reflect_Complex64 | reflect_Complex128
  | reflect_Array | reflect_Chan | reflect_Func | reflect_Interface | reflect_Map
  | reflect_Ptr | reflect_Slice | reflect_String | reflect_Struct | reflect_UnsafePointer

fun kind_num :: "Kind \<Rightarrow> nat" where
  "kind_num reflect_Invalid = 0"
| "kind_num reflect_Bool = 1"
| "kind_num reflect_Int = 2"
| "kind_num reflect_Int8 = 3"
| "kind_num reflect_Int16 = 4"
| "kind_num reflect_Int32 = 5"
| "kind_num reflect_Int64 = 6"
| "kind_num reflect_Uint = 7"
| "kind_num reflect_Uint8 = 8"
| "kind_num reflect_Uint16 = 9"
| "kind_num reflect_Uint32 = 10"
| "kind_num reflect_Uint64 = 11"
| "kind_num reflect_Uintptr = 12"
| "kind_num reflect_Float32 = 13"
| "kind_num reflect_Float64 = 14"
| "kind_num reflect_Complex64 = 15"
| "kind_num reflect_Complex128 = 16"
| "kind_num reflect_Array = 17"
| "kind_num reflect_Chan = 18"
| "kind_num reflect_Func = 19"
| "kind_num reflect_Interface = 20"
| "kind_num reflect_Map = 21"
| "kind_num reflect_Ptr = 22"
| "kind_num reflect_Slice = 23"
| "kind_num reflect_String = 24"
| "kind_num reflect_Struct = 25"
| "kind_num reflect_UnsafePointer = 26"

text \<open>The four register classes (\<open>vm.Type\<close>).\<close>

datatype Type = TypeInt | TypeFloat | TypeString | TypeIface

text \<open>
  Modelled from the spec: \<open>kindToType\<close> is called by \<open>builder.go\<close> but declared in a
  file of the package that is not at hand. The specification describes it as the lowering
  table of the register classes: all integer widths (including the unsigned ones) collapse
  to \<open>Int\<close>, both float widths to \<open>Float\<close>, strings to \<open>String\<close>, and every other
  type to \<open>General\<close>.
\<close>

fun kindToType :: "Kind \<Rightarrow> Type" where
  "kindToType reflect_Int = TypeInt"
| "kindToType reflect_Int8 = TypeInt"
| "kindToType reflect_Int16 = TypeInt"
| "kindToType reflect_Int32 = TypeInt"
| "kindToType reflect_Int64 = TypeInt"
| "kindToType reflect_Uint = TypeInt"
| "kindToType reflect_Uint8 = TypeInt"
| "kindToType reflect_Uint16 = TypeInt"
| "kindToType reflect_Uint32 = TypeInt"
| "kindToType reflect_Uint64 = TypeInt"
| "kindToType reflect_Uintptr = TypeInt"
| "kindToType reflect_Float32 = TypeFloat"
| "kindToType reflect_Float64 = TypeFloat"
| "kindToType reflect_String = TypeString"
| "kindToType _ = TypeIface"

text \<open>
  \<open>Operation\<close> is a signed 8-bit integer whose named constants are declared outside
  \<open>builder.go\<close>; their numbering is not needed here. An operation is kept as the name of
  its constant together with its sign: \<open>Negated op\<close> is \<open>-op\<close>, the constant-operand variant.
\<close>

datatype OpName =
    OpNone | OpGoto | OpSelector
  | OpAddInt | OpAddInt8 | OpAddInt16 | OpAddInt32 | OpAddFloat32 | OpAddFloat64
  | OpSubInt | OpSubInt8 | OpSubInt16 | OpSubInt32 | OpSubFloat32 | OpSubFloat64
  | OpSubInvInt | OpSubInvInt8 | OpSubInvInt16 | OpSubInvInt32 | OpSubInvFloat32
  | OpSubInvFloat64

datatype Operation = Plain OpName | Negated OpName

fun negate :: "Operation \<Rightarrow> Operation" where
  "negate (Plain n) = Negated n"
| "negate (Negated n) = Plain n"

text \<open>\<open>int8\<close> and \<open>uint8\<close> values are both 8-bit words; \<open>sint\<close> reads the first,
  \<open>unat\<close> the second, and a conversion between them keeps the bits.\<close>

type_synonym int8 = "8 word"
type_synonym uint8 = "8 word"
type_synonym uint32 = "32 word"

record Instruction =
  Op :: Operation
  A :: int8
  B :: int8
  C :: int8

type_synonym StackShift = "int8 \<times> int8 \<times> int8 \<times> int8"

text \<open>
  The constant pools of a function. A \<open>float64\<close> constant is kept as its 64-bit pattern;
  the boxed values of the \<open>General\<close> pool are of an arbitrary type \<open>'v\<close>. The
  pool \<open>Int\<close> is written \<open>Int'\<close>.
\<close>

record 'v Constants =
  Int' :: "64 word list"
  Float :: "64 word list"
  String :: "string list"
  General :: "'v list"

text \<open>The fields of \<open>ScrigoFunction\<close> that the builder operations below read or write.
  \<open>RegNum\<close> is the array of the four committed register counts.\<close>

record 'v ScrigoFunction =
  Pkg :: string
  Name :: string
  RegNum :: "uint8 list"
  Constants :: "'v Constants"
  Body :: "Instruction list"

record 'v FunctionBuilder =
  fn :: "'v ScrigoFunction"
  labels :: "uint32 list"
  gotos :: "(uint32 \<times> uint32) list option"
  maxRegs :: "Kind \<rightharpoonup> uint8"
  numRegs :: "Kind \<rightharpoonup> uint8"
  scopes :: "(string \<rightharpoonup> int8) list"
  scopeShifts :: "StackShift list"

text \<open>A Go panic: the message of an explicit \<open>panic\<close>, or the runtime's index error.\<close>

datatype panic = Panic string | IndexOutOfRange


definition bindP :: "panic + 'a \<Rightarrow> ('a \<Rightarrow> panic + 'b) \<Rightarrow> panic + 'b" where
  "bindP m f = (case m of Inl e \<Rightarrow> Inl e | Inr x \<Rightarrow> f x)"

subsection \<open>Creation\<close>

text \<open>\<open>NewScrigoFunction\<close>: every field but package and name has Go's zero value.\<close>

definition NewScrigoFunction :: "string \<Rightarrow> string \<Rightarrow> 'v ScrigoFunction" where
  "NewScrigoFunction pkg name =
     \<lparr>Pkg = pkg, Name = name, RegNum = [0, 0, 0, 0],
      Constants = \<lparr>Int' = [], Float = [], String = [], General = []\<rparr>,
      Body = []\<rparr>"

definition NewBuilder :: "'v ScrigoFunction \<Rightarrow> 'v FunctionBuilder" where
  "NewBuilder f =
     \<lparr>fn = f\<lparr>Body := []\<rparr>, labels = [], gotos = Some [], maxRegs = Map.empty,
      numRegs = Map.empty, scopes = [], scopeShifts = []\<rparr>"

subsection \<open>Registers, scopes and virtual stacks\<close>

text \<open>Reading a Go map at a missing key gives the zero value.\<close>

definition regs_get :: "(Kind \<rightharpoonup> uint8) \<Rightarrow> Kind \<Rightarrow> uint8" where
  "regs_get m k = (case m k of None \<Rightarrow> 0 | Some n \<Rightarrow> n)"

text \<open>The \<open>switch kindToType(kind)\<close> that opens \<open>NewRegister\<close> and \<open>allocRegister\<close>.\<close>

definition classKind :: "Kind \<Rightarrow> Kind" where
  "classKind kind =
     (case kindToType kind of
        TypeInt \<Rightarrow> reflect_Int
      | TypeFloat \<Rightarrow> reflect_Float64
      | TypeString \<Rightarrow> reflect_String
      | TypeIface \<Rightarrow> reflect_Interface)"

text \<open>\<open>raise m kind reg\<close> is one of the two guarded stores of \<open>allocRegister\<close>:
  \<open>if num, ok := m[kind]; !ok || uint8(reg) > num { m[kind] = uint8(reg) }\<close>.\<close>

definition raise :: "(Kind \<rightharpoonup> uint8) \<Rightarrow> Kind \<Rightarrow> int8 \<Rightarrow> (Kind \<rightharpoonup> uint8)" where
  "raise m kind reg =
     (case m kind of
        None \<Rightarrow> m(kind \<mapsto> reg)
      | Some num \<Rightarrow> if num < reg then m(kind \<mapsto> reg) else m)"

definition allocRegister :: "'v FunctionBuilder \<Rightarrow> Kind \<Rightarrow> int8 \<Rightarrow> 'v FunctionBuilder" where
  "allocRegister b kind reg =
     (let kind = classKind kind in
      if 0 <s reg
      then b\<lparr>maxRegs := raise (maxRegs b) kind reg, numRegs := raise (numRegs b) kind reg\<rparr>
      else b)"

definition NewRegister :: "'v FunctionBuilder \<Rightarrow> Kind \<Rightarrow> int8 \<times> 'v FunctionBuilder" where
  "NewRegister b kind =
     (let kind = classKind kind;
          reg = regs_get (numRegs b) kind + 1
      in (reg, allocRegister b kind reg))"

definition EnterStack :: "'v FunctionBuilder \<Rightarrow> 'v FunctionBuilder" where
  "EnterStack b =
     (let scopeShift =
            (regs_get (numRegs b) reflect_Int, regs_get (numRegs b) reflect_Float64,
             regs_get (numRegs b) reflect_String, regs_get (numRegs b) reflect_Interface)
      in b\<lparr>scopeShifts := scopeShifts b @ [scopeShift]\<rparr>)"

definition ExitStack :: "'v FunctionBuilder \<Rightarrow> panic + 'v FunctionBuilder" where
  "ExitStack b =
     (if scopeShifts b = [] then Inl IndexOutOfRange
      else case last (scopeShifts b) of (s0, s1, s2, s3) \<Rightarrow>
        Inr (b\<lparr>numRegs := (numRegs b)(reflect_Int \<mapsto> s0, reflect_Float64 \<mapsto> s1,
                                         reflect_String \<mapsto> s2, reflect_Interface \<mapsto> s3),
               scopeShifts := butlast (scopeShifts b)\<rparr>))"

definition EnterScope :: "'v FunctionBuilder \<Rightarrow> 'v FunctionBuilder" where
  "EnterScope b = EnterStack (b\<lparr>scopes := scopes b @ [Map.empty]\<rparr>)"

definition ExitScope :: "'v FunctionBuilder \<Rightarrow> panic + 'v FunctionBuilder" where
  "ExitScope b =
     (if scopes b = [] then Inl IndexOutOfRange
      else ExitStack (b\<lparr>scopes := butlast (scopes b)\<rparr>))"

subsection \<open>Constant pools\<close>

text \<open>\<open>len\<close> is a Go \<open>int\<close>, here a natural number; \<open>int8(r)\<close> keeps its low 8 bits.\<close>

definition MakeStringConstant ::
  "'v FunctionBuilder \<Rightarrow> string \<Rightarrow> panic + (int8 \<times> 'v FunctionBuilder)" where
  "MakeStringConstant b c =
     (let r = length (String (Constants (fn b))) in
      if r > 255 then Inl (Panic ''string refs limit reached'')
      else Inr (of_nat r,
                b\<lparr>fn := (fn b)\<lparr>Constants := (Constants (fn b))
                        \<lparr>String := String (Constants (fn b)) @ [c]\<rparr>\<rparr>\<rparr>))"

definition MakeGeneralConstant ::
  "'v FunctionBuilder \<Rightarrow> 'v \<Rightarrow> panic + (int8 \<times> 'v FunctionBuilder)" where
  "MakeGeneralConstant b v =
     (let r = length (General (Constants (fn b))) in
      if r > 255 then Inl (Panic ''general refs limit reached'')
      else Inr (of_nat r,
                b\<lparr>fn := (fn b)\<lparr>Constants := (Constants (fn b))
                        \<lparr>General := General (Constants (fn b)) @ [v]\<rparr>\<rparr>\<rparr>))"

definition MakeFloatConstant ::
  "'v FunctionBuilder \<Rightarrow> 64 word \<Rightarrow> panic + (int8 \<times> 'v FunctionBuilder)" where
  "MakeFloatConstant b c =
     (let r = length (Float (Constants (fn b))) in
      if r > 255 then Inl (Panic ''float refs limit reached'')
      else Inr (of_nat r,
                b\<lparr>fn := (fn b)\<lparr>Constants := (Constants (fn b))
                        \<lparr>Float := Float (Constants (fn b)) @ [c]\<rparr>\<rparr>\<rparr>))"

definition MakeIntConstant ::
  "'v FunctionBuilder \<Rightarrow> 64 word \<Rightarrow> panic + (int8 \<times> 'v FunctionBuilder)" where
  "MakeIntConstant b c =
     (let r = length (Int' (Constants (fn b))) in
      if r > 255 then Inl (Panic ''int refs limit reached'')
      else Inr (of_nat r,
                b\<lparr>fn := (fn b)\<lparr>Constants := (Constants (fn b))
                        \<lparr>Int' := Int' (Constants (fn b)) @ [c]\<rparr>\<rparr>\<rparr>))"

text \<open>\<open>r := -len(General) - 1\<close> is computed on Go's \<open>int\<close>, before the append.\<close>

definition MakeInterfaceConstant ::
  "'v FunctionBuilder \<Rightarrow> 'v \<Rightarrow> panic + (int8 \<times> 'v FunctionBuilder)" where
  "MakeInterfaceConstant b c =
     (let r = - int (length (General (Constants (fn b)))) - 1 in
      if r = - 129 then Inl (Panic ''interface refs limit reached'')
      else Inr (word_of_int r,
                b\<lparr>fn := (fn b)\<lparr>Constants := (Constants (fn b))
                        \<lparr>General := General (Constants (fn b)) @ [c]\<rparr>\<rparr>\<rparr>))"

text \<open>A run of \<open>MakeInterfaceConstant\<close> calls, one for each value in turn, collecting the
  returned indices; the first panic ends the run.\<close>

fun MakeInterfaceConstants ::
  "'v FunctionBuilder \<Rightarrow> 'v list \<Rightarrow> panic + (int8 list \<times> 'v FunctionBuilder)" where
  "MakeInterfaceConstants b [] = Inr ([], b)"
| "MakeInterfaceConstants b (c # cs) =
     (case MakeInterfaceConstant b c of
        Inl e \<Rightarrow> Inl e
      | Inr (r, b') \<Rightarrow>
          (case MakeInterfaceConstants b' cs of
             Inl e \<Rightarrow> Inl e
           | Inr (rs, b'') \<Rightarrow> Inr (r # rs, b'')))"

subsection \<open>Labels and addresses\<close>

definition CurrentAddr :: "'v FunctionBuilder \<Rightarrow> uint32" where
  "CurrentAddr b = of_nat (length (Body (fn b)))"

definition NewLabel :: "'v FunctionBuilder \<Rightarrow> uint32 \<times> 'v FunctionBuilder" where
  "NewLabel b =
     (let b' = b\<lparr>labels := labels b @ [0]\<rparr> in (of_nat (length (labels b')), b'))"

text \<open>\<open>label - 1\<close> is an unsigned subtraction: label 0 wraps to the largest index and
  is out of range like any label beyond the table.\<close>

definition SetLabelAddr :: "'v FunctionBuilder \<Rightarrow> uint32 \<Rightarrow> panic + 'v FunctionBuilder" where
  "SetLabelAddr b label =
     (if unat (label - 1) < length (labels b)
      then Inr (b\<lparr>labels := (labels b)[unat (label - 1) := CurrentAddr b]\<rparr>)
      else Inl IndexOutOfRange)"

definition encodeAddr :: "uint32 \<Rightarrow> int8 \<times> int8 \<times> int8" where
  "encodeAddr v = (ucast v, ucast (drop_bit 8 v), ucast (drop_bit 16 v))"

text \<open>
  Modelled from the spec: the decoder of a jump target belongs to the virtual machine,
  which is not at hand. The specification fixes the layout: three bytes, little-endian
  over the operands, byte 0 from \<open>A\<close>, byte 1 from \<open>B\<close>, byte 2 from \<open>C\<close>, each operand
  read as an unsigned byte.
\<close>

definition decodeAddr :: "int8 \<Rightarrow> int8 \<Rightarrow> int8 \<Rightarrow> uint32" where
  "decodeAddr a b c = ucast a OR push_bit 8 (ucast b) OR push_bit 16 (ucast c)"

subsection \<open>Emission\<close>

definition emit :: "'v FunctionBuilder \<Rightarrow> Instruction \<Rightarrow> 'v FunctionBuilder" where
  "emit b i = b\<lparr>fn := (fn b)\<lparr>Body := Body (fn b) @ [i]\<rparr>\<rparr>"

definition Nop :: "'v FunctionBuilder \<Rightarrow> 'v FunctionBuilder" where
  "Nop b = emit b \<lparr>Op = Plain OpNone, A = 0, B = 0, C = 0\<rparr>"

text \<open>\<open>gotos\<close> is a Go map from the address of a jump to its label; it is kept as an
  association list with one entry for each key, and \<open>None\<close> is the nil map that \<open>End\<close>
  leaves, where a store panics.\<close>

definition Goto :: "'v FunctionBuilder \<Rightarrow> uint32 \<Rightarrow> panic + 'v FunctionBuilder" where
  "Goto b label =
     (let in0 = \<lparr>Op = Plain OpGoto, A = 0, B = 0, C = 0\<rparr> in
      if 0 < label then
        if of_nat (length (labels b)) < label then Inl (Panic ''bug!'')
        else if \<not> unat (label - 1) < length (labels b) then Inl IndexOutOfRange
        else
          let addr = labels b ! unat (label - 1) in
          if addr = 0
          then (case gotos b of
                  None \<Rightarrow> Inl (Panic ''assignment to entry in nil map'')
                | Some g \<Rightarrow>
                    Inr (emit (b\<lparr>gotos := Some (AList.update (CurrentAddr b) label g)\<rparr>) in0))
          else (case encodeAddr addr of (a, b', c) \<Rightarrow>
                  Inr (emit b (in0\<lparr>A := a, B := b', C := c\<rparr>)))
      else Inr (emit b in0))"

definition Add ::
  "'v FunctionBuilder \<Rightarrow> bool \<Rightarrow> int8 \<Rightarrow> int8 \<Rightarrow> int8 \<Rightarrow> Kind \<Rightarrow> panic + 'v FunctionBuilder" where
  "Add b k x y z kind =
     (let b = allocRegister b kind x;
          b = (if \<not> k then allocRegister b kind y else b);
          b = allocRegister b kind z
      in bindP
           (if kind \<in> {reflect_Int, reflect_Int64, reflect_Uint, reflect_Uint64} then Inr OpAddInt
            else if kind \<in> {reflect_Int32, reflect_Uint32} then Inr OpAddInt32
            else if kind \<in> {reflect_Int16, reflect_Uint16} then Inr OpAddInt16
            else if kind \<in> {reflect_Int8, reflect_Uint8} then Inr OpAddInt8
            else if kind = reflect_Float64 then Inr OpAddFloat64
            else if kind = reflect_Float32 then Inr OpAddFloat32
            else Inl (Panic ''add: invalid type''))
           (\<lambda>op. Inr (emit b \<lparr>Op = (if k then negate (Plain op) else Plain op),
                              A = x, B = y, C = z\<rparr>)))"

definition Sub ::
  "'v FunctionBuilder \<Rightarrow> bool \<Rightarrow> int8 \<Rightarrow> int8 \<Rightarrow> int8 \<Rightarrow> Kind \<Rightarrow> panic + 'v FunctionBuilder" where
  "Sub b k x y z kind =
     (let b = allocRegister b reflect_Int x;
          b = (if \<not> k then allocRegister b reflect_Int y else b);
          b = allocRegister b reflect_Int z
      in bindP
           (if kind \<in> {reflect_Int, reflect_Int64, reflect_Uint, reflect_Uint64} then Inr OpSubInt
            else if kind \<in> {reflect_Int32, reflect_Uint32} then Inr OpSubInt32
            else if kind \<in> {reflect_Int16, reflect_Uint16} then Inr OpSubInt16
            else if kind \<in> {reflect_Int8, reflect_Uint8} then Inr OpSubInt8
            else if kind = reflect_Float64 then Inr OpSubFloat64
            else if kind = reflect_Float32 then Inr OpSubFloat32
            else Inl (Panic ''sub: invalid type''))
           (\<lambda>op. Inr (emit b \<lparr>Op = (if k then negate (Plain op) else Plain op),
                              A = x, B = y, C = z\<rparr>)))"

definition SubInv ::
  "'v FunctionBuilder \<Rightarrow> bool \<Rightarrow> int8 \<Rightarrow> int8 \<Rightarrow> int8 \<Rightarrow> Kind \<Rightarrow> panic + 'v FunctionBuilder" where
  "SubInv b k x y z kind =
     (let b = allocRegister b reflect_Int x;
          b = (if \<not> k then allocRegister b reflect_Int y else b);
          b = allocRegister b reflect_Int z
      in bindP
           (if kind \<in> {reflect_Int, reflect_Int64, reflect_Uint, reflect_Uint64}
            then Inr OpSubInvInt
            else if kind \<in> {reflect_Int32, reflect_Uint32} then Inr OpSubInvInt32
            else if kind \<in> {reflect_Int16, reflect_Uint16} then Inr OpSubInvInt16
            else if kind \<in> {reflect_Int8, reflect_Uint8} then Inr OpSubInvInt8
            else if kind = reflect_Float64 then Inr OpSubInvFloat64
            else if kind = reflect_Float32 then Inr OpSubInvFloat32
            else Inl (Panic ''subInv: invalid type''))
           (\<lambda>op. Inr (emit b \<lparr>Op = (if k then negate (Plain op) else Plain op),
                              A = x, B = y, C = z\<rparr>)))"

definition Selector :: "'v FunctionBuilder \<Rightarrow> int8 \<Rightarrow> int8 \<Rightarrow> int8 \<Rightarrow> 'v FunctionBuilder" where
  "Selector b a field c = emit b \<lparr>Op = Plain OpSelector, A = a, B = field, C = c\<rparr>"

subsection \<open>Finalization\<close>

text \<open>The first loop of \<open>End\<close>: every pending jump gets the address of its label. The
  reads \<open>fn.Body[addr]\<close> and \<open>builder.labels[label-1]\<close> panic out of range. Go visits the
  entries of the map in no fixed order; each entry writes its own instruction.\<close>

fun patch ::
  "uint32 list \<Rightarrow> (uint32 \<times> uint32) list \<Rightarrow> Instruction list \<Rightarrow> panic + Instruction list" where
  "patch ls [] body = Inr body"
| "patch ls ((addr, label) # gs) body =
     (if unat addr < length body \<and> unat (label - 1) < length ls
      then (case encodeAddr (ls ! unat (label - 1)) of (a, b, c) \<Rightarrow>
              patch ls gs (body[unat addr := (body ! unat addr)\<lparr>A := a, B := b, C := c\<rparr>]))
      else Inl IndexOutOfRange)"

text \<open>The second loop: one entry \<open>(kind, num)\<close> of \<open>maxRegs\<close> raises the committed count
  of the class of \<open>kind\<close>.\<close>

definition commit :: "Kind \<Rightarrow> uint8 \<Rightarrow> uint8 list \<Rightarrow> uint8 list" where
  "commit kind num rn =
     (if kind_num reflect_Int \<le> kind_num kind \<and> kind_num kind \<le> kind_num reflect_Uint64
      then (if rn ! 0 < num then rn[0 := num] else rn)
      else if kind = reflect_Float64 \<or> kind = reflect_Float32
      then (if rn ! 1 < num then rn[1 := num] else rn)
      else if kind = reflect_String
      then (if rn ! 2 < num then rn[2 := num] else rn)
      else (if rn ! 3 < num then rn[3 := num] else rn))"

definition all_kinds :: "Kind list" where
  "all_kinds =
     [reflect_Invalid, reflect_Bool, reflect_Int, reflect_Int8, reflect_Int16, reflect_Int32,
      reflect_Int64, reflect_Uint, reflect_Uint8, reflect_Uint16, reflect_Uint32,
      reflect_Uint64, reflect_Uintptr, reflect_Float32, reflect_Float64, reflect_Complex64,
      reflect_Complex128, reflect_Array, reflect_Chan, reflect_Func, reflect_Interface,
      reflect_Map, reflect_Ptr, reflect_Slice, reflect_String, reflect_Struct,
      reflect_UnsafePointer]"

definition commitAll :: "(Kind \<rightharpoonup> uint8) \<Rightarrow> uint8 list \<Rightarrow> uint8 list" where
  "commitAll m rn =
     fold (\<lambda>kind rn. case m kind of None \<Rightarrow> rn | Some num \<Rightarrow> commit kind num rn) all_kinds rn"

definition End :: "'v FunctionBuilder \<Rightarrow> panic + 'v FunctionBuilder" where
  "End b =
     bindP (patch (labels b) (case gotos b of None \<Rightarrow> [] | Some g \<Rightarrow> g) (Body (fn b)))
       (\<lambda>body. Inr (b\<lparr>fn := (fn b)\<lparr>Body := body, RegNum := commitAll (maxRegs b) (RegNum (fn b))\<rparr>,
                      gotos := None\<rparr>))"

subsection \<open>Call sequences\<close>

text \<open>\<open>EnterStack; r1 = NewRegister(Int); r2 = NewRegister(Int); ExitStack;
  r3 = NewRegister(Int); End()\<close> on a fresh builder. The run returns the three registers
  and the finished function.\<close>

definition register_reuse_run ::
  "string \<Rightarrow> string \<Rightarrow> panic + (int8 \<times> int8 \<times> int8 \<times> 'v ScrigoFunction)" where
  "register_reuse_run pkg name =
     (let b = EnterStack (NewBuilder (NewScrigoFunction pkg name));
          (r1, b) = NewRegister b reflect_Int;
          (r2, b) = NewRegister b reflect_Int
      in bindP (ExitStack b) (\<lambda>b.
           let (r3, b) = NewRegister b reflect_Int
           in bindP (End b) (\<lambda>b. Inr (r1, r2, r3, fn b))))"

text \<open>\<open>lbl = NewLabel(); Goto(lbl); a = CurrentAddr(); Nop(); SetLabelAddr(lbl); End()\<close>
  on a fresh builder. The run returns \<open>a\<close> and the finished function.\<close>

definition forward_jump_run :: "string \<Rightarrow> string \<Rightarrow> panic + (uint32 \<times> 'v ScrigoFunction)" where
  "forward_jump_run pkg name =
     (let (lbl, b) = NewLabel (NewBuilder (NewScrigoFunction pkg name))
      in bindP (Goto b lbl) (\<lambda>b.
           let a = CurrentAddr b; b = Nop b
           in bindP (SetLabelAddr b lbl) (\<lambda>b.
                bindP (End b) (\<lambda>b. Inr (a, fn b)))))"

text \<open>One arithmetic instruction on registers 1, 2 and 3 of the given kind, emitted by
  \<open>Sub\<close>, \<open>SubInv\<close> or \<open>Add\<close> on a fresh builder, then \<open>End()\<close>; and one \<open>Selector\<close>
  instruction, then \<open>End()\<close>.\<close>

definition sub_run :: "string \<Rightarrow> string \<Rightarrow> Kind \<Rightarrow> panic + 'v ScrigoFunction" where
  "sub_run pkg name kind =
     bindP (Sub (NewBuilder (NewScrigoFunction pkg name)) False 1 2 3 kind) (\<lambda>b.
       bindP (End b) (\<lambda>b. Inr (fn b)))"

definition subInv_run :: "string \<Rightarrow> string \<Rightarrow> Kind \<Rightarrow> panic + 'v ScrigoFunction" where
  "subInv_run pkg name kind =
     bindP (SubInv (NewBuilder (NewScrigoFunction pkg name)) False 1 2 3 kind) (\<lambda>b.
       bindP (End b) (\<lambda>b. Inr (fn b)))"

definition add_run :: "string \<Rightarrow> string \<Rightarrow> Kind \<Rightarrow> panic + 'v ScrigoFunction" where
  "add_run pkg name kind =
     bindP (Add (NewBuilder (NewScrigoFunction pkg name)) False 1 2 3 kind) (\<lambda>b.
       bindP (End b) (\<lambda>b. Inr (fn b)))"

definition selector_run :: "string \<Rightarrow> string \<Rightarrow> panic + 'v ScrigoFunction" where
  "selector_run pkg name =
     bindP (End (Selector (NewBuilder (NewScrigoFunction pkg name)) 1 2 3)) (\<lambda>b. Inr (fn b))"

subsection \<open>Builders with given pools\<close>

text \<open>\<open>withGeneral b g\<close> is the builder \<open>b\<close> with \<open>g\<close> as its \<open>General\<close> pool, and
  \<open>pools_of_length n\<close> a builder whose four pools hold \<open>n\<close> entries each.\<close>

definition withGeneral :: "'v FunctionBuilder \<Rightarrow> 'v list \<Rightarrow> 'v FunctionBuilder" where
  "withGeneral b g = b\<lparr>fn := (fn b)\<lparr>Constants := (Constants (fn b))\<lparr>General := g\<rparr>\<rparr>\<rparr>"

definition pools_of_length :: "nat \<Rightarrow> unit FunctionBuilder" where
  "pools_of_length n =
     (NewBuilder (NewScrigoFunction ''main'' ''f''))
       \<lparr>fn := (NewScrigoFunction ''main'' ''f'')
          \<lparr>Constants := \<lparr>Int' = replicate n 0, Float = replicate n 0,
                          String = replicate n [], General = replicate n ()\<rparr>\<rparr>\<rparr>"

text \<open>A run of \<open>MakeGeneralConstant\<close> calls, one for each value in turn, collecting the
  returned indices; the first panic ends the run.\<close>

fun MakeGeneralConstants ::
  "'v FunctionBuilder \<Rightarrow> 'v list \<Rightarrow> panic + (int8 list \<times> 'v FunctionBuilder)" where
  "MakeGeneralConstants b [] = Inr ([], b)"
| "MakeGeneralConstants b (v # vs) =
     (case MakeGeneralConstant b v of
        Inl e \<Rightarrow> Inl e
      | Inr (r, b') \<Rightarrow>
          (case MakeGeneralConstants b' vs of
             Inl e \<Rightarrow> Inl e
           | Inr (rs, b'') \<Rightarrow> Inr (r # rs, b'')))"

text \<open>On a fresh builder, \<open>MakeGeneralConstant\<close> for each value of \<open>vs\<close>, then one call
  \<open>MakeInterfaceConstant(c)\<close>. The run returns what that last call returns.\<close>

definition general_then_interface_run ::
  "string \<Rightarrow> string \<Rightarrow> 'v list \<Rightarrow> 'v \<Rightarrow> panic + (int8 \<times> 'v FunctionBuilder)" where
  "general_then_interface_run pkg name vs c =
     bindP (MakeGeneralConstants (NewBuilder (NewScrigoFunction pkg name)) vs)
       (\<lambda>(rs, b). MakeInterfaceConstant b c)"

section \<open>The template parser and expander: \<open>parser/parser.go\<close>\<close>

subsection \<open>Trees\<close>

text \<open>
  The syntax trees of package \<open>ast\<close>, as the parser builds and reads them. An \<open>ast\<close>
  type whose name is taken already carries the suffix \<open>_expr\<close>; the field \<open>End\<close> of a
  position is written \<open>End'\<close>. \<open>Switch\<close> and \<open>TypeSwitch\<close> nodes come from
  \<open>parseSwitch\<close>, which is not at hand: they are kept with their position and their
  \<open>Cases\<close>, the one field this file reads.
\<close>

datatype Context =
    ContextNone | ContextText | ContextHTML | ContextCSS | ContextScript
  | ContextAttribute | ContextUnquotedAttribute

record Position =
  Line :: int
  Column :: int
  Start :: int
  End' :: int

record Cut =
  Left :: int
  Right :: int

datatype OperatorType =
    OperatorAddition | OperatorSubtraction | OperatorMultiplication
  | OperatorAnd | OperatorOr | OperatorXor | OperatorAndNot
  | OperatorLeftShift | OperatorRightShift

datatype AssignmentType =
    AssignmentSimple | AssignmentDeclaration | AssignmentIncrement | AssignmentDecrement

datatype Expression =
    Identifier Position string
  | Int_expr Position int
  | Float_expr Position string
  | String_expr Position string
  | Parenthesis Position Expression
  | UnaryOperator Position OperatorType Expression
  | BinaryOperator Position OperatorType Expression Expression
  | Call Position Expression "Expression list"
  | Index Position Expression Expression
  | Slicing Position Expression "Expression option" "Expression option"
  | Selector_expr Position Expression string
  | TypeAssertion Position Expression Expression

datatype Node =
    Tree string "Node list" Context
  | Text Position string Cut
  | URL Position string string "Node list"
  | Value Position Expression Context
  | Comment Position string
  | If Position "Node option" Expression Node "Node option"
  | Block "Position option" "Node list"
  | For Position "Node option" "Expression option" "Node option" "Node list"
  | ForRange Position Node "Node list"
  | Break Position
  | Continue Position
  | Switch Position "Node list"
  | TypeSwitch Position "Node list"
  | Case Position "Expression list" "Node list" bool
  | Macro Position Expression "Expression list" "Node list" bool Context
  | ShowMacro Position "Expression option" Expression "Expression list" Context
  | Include Position string Context "Node option"
  | Extends Position string Context "Node option"
  | Import Position "Expression option" string Context "Node option"
  | Assignment Position "Expression list" AssignmentType "Expression list"
  | Expr Expression

subsection \<open>Errors\<close>

text \<open>
  \<open>Error\<close> is the parser's syntax error. A value of \<open>error\<close> is one of the error values
  of the package, or \<open>Runtime\<close>: a Go panic with a value that is not an \<open>*Error\<close>, which
  \<open>ParseSource\<close> does not recover.
\<close>

record Error =
  Path :: string
  Pos :: Position
  Err :: string

datatype error =
    ErrInvalidPath | ErrNotExist | ErrReadTooLarge
  | SyntaxError Error
  | CycleError string
  | Errorf string
  | Runtime panic

text \<open>\<open>CycleError.Error()\<close>; the line feed and the tab are written as characters.\<close>

definition CycleError_Error :: "string \<Rightarrow> string" where
  "CycleError_Error e = ''cycle not allowed'' @ [CHR 0x0A] @ e"

subsection \<open>Tokens and the parsing state\<close>

text \<open>
  The lexer is not at hand. A token is the record the parser reads (type, position,
  text and context; the token types listed are those of the statements and
  expressions used below), the token channel is the list of the tokens still to come, and
  \<open>next\<close>, written \<open>next_token\<close>, panics on the closed channel.
\<close>

datatype tokenType =
    tokenEOF | tokenText | tokenStartStatement | tokenEndStatement | tokenStartValue
  | tokenEndValue | tokenComment
  | tokenFor | tokenSwitch | tokenCase | tokenDefault | tokenIf | tokenElse | tokenInclude
  | tokenExtends | tokenImport | tokenMacro | tokenEnd
  | tokenSemicolon | tokenColon | tokenComma | tokenPeriod
  | tokenInterpretedString | tokenRawString | tokenIdentifier | tokenNumber

record token =
  typ' :: tokenType
  pos :: Position
  txt' :: string
  ctx :: Context

text \<open>
  The ancestors are kept by value, the root first: each open node with the children
  added to it so far. In the source an open node is the same object as the last child of
  the ancestor that holds it (the \<open>then\<close> block of an open \<open>if\<close> apart, which the \<open>if\<close>
  holds in its field). Here the ancestor has the node as its last child too, as it was
  when it was opened; what the functions below read of such a child is only its kind and
  how many children the ancestor has.
\<close>

record parsing =
  lex :: "token list"
  isExtended :: bool
  isInMacro :: bool
  cutSpacesToken :: bool
  ctx' :: Context
  ancestors :: "Node list"
  lastFallthroughTokenPos :: Position

definition next_token :: "token list \<Rightarrow> error + (token \<times> token list)" where
  "next_token l =
     (case l of
        [] \<Rightarrow> Inl (Runtime (Panic ''next called after EOF''))
      | t # ts \<Rightarrow> Inr (t, ts))"

text \<open>
  What \<open>parseStatement\<close> calls and this file does not define: the \<open>String\<close> methods of
  tokens and expressions, \<open>%q\<close> of package \<open>fmt\<close>, the expression parser
  \<open>parseExprList\<close> (given the first token, if any, the token channel and its four
  flags, it returns the expressions, the token after them and the remaining channel),
  \<open>unquoteString\<close> and \<open>validPath\<close>. \<open>otherStatement\<close> stands for the branches of
  \<open>parseStatement\<close> for the statements other than \<open>case\<close> and \<open>extends\<close>.
\<close>

record externals =
  tokenString :: "token \<Rightarrow> string"
  exprString :: "Expression \<Rightarrow> string"
  quote :: "string \<Rightarrow> string"
  parseExprList ::
    "token option \<Rightarrow> token list \<Rightarrow> bool \<Rightarrow> bool \<Rightarrow> bool \<Rightarrow> bool
     \<Rightarrow> error + (Expression list \<times> token \<times> token list)"
  unquoteString :: "string \<Rightarrow> string"
  validPath :: "string \<Rightarrow> bool"
  otherStatement :: "parsing \<Rightarrow> Position \<Rightarrow> token \<Rightarrow> error + parsing"

definition bindE :: "error + 'a \<Rightarrow> ('a \<Rightarrow> error + 'b) \<Rightarrow> error + 'b" where
  "bindE m f = (case m of Inl e \<Rightarrow> Inl e | Inr x \<Rightarrow> f x)"

text \<open>\<open>panic(&Error{"", *tok.pos, fmt.Errorf(...)})\<close>.\<close>

definition syntax_panic :: "Position \<Rightarrow> string \<Rightarrow> error + 'a" where
  "syntax_panic at msg = Inl (SyntaxError \<lparr>Path = '''', Pos = at, Err = msg\<rparr>)"

subsection \<open>\<open>addChild\<close>\<close>

definition is_Case :: "Node \<Rightarrow> bool" where
  "is_Case n = (case n of Case _ _ _ _ \<Rightarrow> True | _ \<Rightarrow> False)"

definition is_Text :: "Node \<Rightarrow> bool" where
  "is_Text n = (case n of Text _ _ _ \<Rightarrow> True | _ \<Rightarrow> False)"

text \<open>A node that is not a \<open>Case\<close> goes into the body of the last case of a switch;
  \<open>n.Cases[len(n.Cases)-1]\<close> panics when there is none.\<close>

definition addToLastCase :: "Node list \<Rightarrow> Node \<Rightarrow> error + Node list" where
  "addToLastCase cases node =
     (if cases = [] then Inl (Runtime IndexOutOfRange)
      else (case last cases of
              Case cp es body ft \<Rightarrow> Inr (butlast cases @ [Case cp es (body @ [node]) ft])
            | _ \<Rightarrow> Inl (Runtime (Panic ''not a case''))))"

definition addChild :: "Node \<Rightarrow> Node \<Rightarrow> error + Node" where
  "addChild parent node =
     (case parent of
        Tree path nodes c \<Rightarrow> Inr (Tree path (nodes @ [node]) c)
      | URL p tag att v \<Rightarrow> Inr (URL p tag att (v @ [node]))
      | Macro p ident params body variadic c \<Rightarrow>
          Inr (Macro p ident params (body @ [node]) variadic c)
      | For p init cond post body \<Rightarrow> Inr (For p init cond post (body @ [node]))
      | ForRange p a body \<Rightarrow> Inr (ForRange p a (body @ [node]))
      | If p a cond then' else' \<Rightarrow>
          (case else' of
             Some _ \<Rightarrow> Inl (Runtime (Panic ''child already added to if node''))
           | None \<Rightarrow> Inr (If p a cond then' (Some node)))
      | Block p nodes \<Rightarrow> Inr (Block p (nodes @ [node]))
      | Switch p cases \<Rightarrow>
          (if is_Case node then Inr (Switch p (cases @ [node]))
           else bindE (addToLastCase cases node) (\<lambda>cases'. Inr (Switch p cases')))
      | TypeSwitch p cases \<Rightarrow>
          (if is_Case node then Inr (TypeSwitch p (cases @ [node]))
           else bindE (addToLastCase cases node) (\<lambda>cases'. Inr (TypeSwitch p cases')))
      | _ \<Rightarrow> Inl (Runtime (Panic ''template/parser: unexpected parent node'')))"

subsection \<open>\<open>parseStatement\<close>: the prologue, \<open>case\<close> and \<open>extends\<close>\<close>

text \<open>\<open>l\<close>: the number of cases of a parent that is a switch, and -1 for any other.\<close>

definition cases_len :: "Node \<Rightarrow> int" where
  "cases_len parent =
     (case parent of
        Switch _ cases \<Rightarrow> int (length cases)
      | TypeSwitch _ cases \<Rightarrow> int (length cases)
      | _ \<Rightarrow> - 1)"

definition is_TypeSwitch :: "Node \<Rightarrow> bool" where
  "is_TypeSwitch n = (case n of TypeSwitch _ _ \<Rightarrow> True | _ \<Rightarrow> False)"

definition is_Switch :: "Node \<Rightarrow> bool" where
  "is_Switch n = (case n of Switch _ _ \<Rightarrow> True | _ \<Rightarrow> False)"

text \<open>The loop over the expressions of a case of a type switch: the first expression
  that is rejected gives the error, \<open>None\<close> says that the loop ends without a panic.\<close>

definition not_a_type :: "externals \<Rightarrow> Expression \<Rightarrow> string option" where
  "not_a_type ext e =
     (case e of
        Identifier _ name \<Rightarrow>
          (if name = ''true'' \<or> name = ''false''
           then Some (name @ '' (type bool) is not a type'') else None)
      | Int_expr _ _ \<Rightarrow> Some (exprString ext e @ '' (type int) is not a type'')
      | Float_expr _ _ \<Rightarrow> Some (exprString ext e @ '' (type float) is not a type'')
      | String_expr _ _ \<Rightarrow> Some (exprString ext e @ '' (type string) is not a type'')
      | _ \<Rightarrow> Some (exprString ext e @ '' is not a type''))"

fun first_not_a_type :: "externals \<Rightarrow> Expression list \<Rightarrow> string option" where
  "first_not_a_type ext [] = None"
| "first_not_a_type ext (e # es) =
     (case not_a_type ext e of Some msg \<Rightarrow> Some msg | None \<Rightarrow> first_not_a_type ext es)"

text \<open>The test on the token that ends a statement: a colon or a semicolon in a program,
  \<open>%}\<close> in a template.\<close>

definition replace_parent :: "parsing \<Rightarrow> Node \<Rightarrow> parsing" where
  "replace_parent p parent = p\<lparr>ancestors := butlast (ancestors p) @ [parent]\<rparr>"

definition parseCase :: "externals \<Rightarrow> parsing \<Rightarrow> Position \<Rightarrow> token \<Rightarrow> Node \<Rightarrow> error + parsing" where
  "parseCase ext p pos0 tok parent =
     (if \<not> (is_Switch parent \<or> is_TypeSwitch parent)
      then syntax_panic (pos tok) ''unexpected case''
      else bindE (parseExprList ext None (lex p) False False False False)
        (\<lambda>(expressions, tok, rest).
           if (ctx' p = ContextNone \<and> typ' tok \<noteq> tokenColon)
              \<or> (ctx' p \<noteq> ContextNone \<and> typ' tok \<noteq> tokenEndStatement)
           then syntax_panic (pos tok)
                  (''unexpected '' @ tokenString ext tok @ '', expecting %}'')
           else
             let pos1 = pos0\<lparr>End' := End' (pos tok)\<rparr> in
             (case (if is_TypeSwitch parent then first_not_a_type ext expressions else None) of
                Some msg \<Rightarrow> syntax_panic (pos tok) msg
              | None \<Rightarrow>
                  bindE (addChild parent (Case pos1 expressions [] False))
                    (\<lambda>parent'. Inr (replace_parent (p\<lparr>lex := rest\<rparr>) parent')))))"

definition parseExtends ::
  "externals \<Rightarrow> parsing \<Rightarrow> Position \<Rightarrow> token \<Rightarrow> Node \<Rightarrow> error + parsing" where
  "parseExtends ext p pos0 tok parent =
     (if ctx' p = ContextNone
      then syntax_panic (pos tok) ''extends statement not in template''
      else if isExtended p
      then syntax_panic (pos tok) ''extends already exists''
      else (case hd (ancestors p) of
        Tree tpath nodes tctx \<Rightarrow>
          if nodes \<noteq> [] \<and> (\<not> is_Text (hd nodes) \<or> length nodes > 1)
          then syntax_panic (pos tok) ''extends can only be the first statement''
          else if ctx tok \<noteq> ctx' p
                  \<and> (ctx tok = ContextAttribute \<or> ctx tok = ContextUnquotedAttribute)
          then syntax_panic (pos tok) ''extends inside an attribute value''
          else if ctx tok \<noteq> ctx' p \<and> ctx tok = ContextScript
          then syntax_panic (pos tok) ''extends inside a script tag''
          else if ctx tok \<noteq> ctx' p \<and> ctx tok = ContextCSS
          then syntax_panic (pos tok) ''extends inside a style tag''
          else bindE (next_token (lex p)) (\<lambda>(tok, rest).
            if typ' tok \<noteq> tokenInterpretedString \<and> typ' tok \<noteq> tokenRawString
            then syntax_panic (pos tok)
                   (''unexpected '' @ tokenString ext tok @ '', expecting string'')
            else
              let path = unquoteString ext (txt' tok) in
              if \<not> validPath ext path
              then syntax_panic (pos tok) (''invalid extends path '' @ quote ext path)
              else bindE (next_token rest) (\<lambda>(tok, rest).
                if typ' tok \<noteq> tokenEndStatement
                then syntax_panic (pos tok)
                       (''unexpected '' @ tokenString ext tok @ '', expecting %}'')
                else
                  let pos1 = pos0\<lparr>End' := End' (pos tok)\<rparr> in
                  bindE (addChild parent (Extends pos1 path (ctx tok) None))
                    (\<lambda>parent'.
                       Inr (replace_parent (p\<lparr>lex := rest, isExtended := True\<rparr>) parent'))))
      | _ \<Rightarrow> Inl (Runtime (Panic ''interface conversion: ast.Node is not *ast.Tree''))))"

text \<open>\<open>parseStatement\<close>. In a template the token given is \<open>{%\<close> and the keyword is the
  next one; \<open>pos\<close> is the position of the token given.\<close>

definition parseStatement :: "externals \<Rightarrow> parsing \<Rightarrow> token \<Rightarrow> error + parsing" where
  "parseStatement ext p tok0 =
     bindE (if ctx' p \<noteq> ContextNone then next_token (lex p) else Inr (tok0, lex p))
       (\<lambda>(tok, rest).
          let p = p\<lparr>lex := rest\<rparr> in
          if ancestors p = [] then Inl (Runtime IndexOutOfRange)
          else
            let parent = last (ancestors p) in
            if cases_len parent = 0
               \<and> typ' tok \<noteq> tokenCase \<and> typ' tok \<noteq> tokenDefault \<and> typ' tok \<noteq> tokenEnd
            then syntax_panic (pos tok)
                   (''unexpected '' @ tokenString ext tok
                      @ '', expecting case of default or {% end %}'')
            else if typ' tok = tokenCase then parseCase ext p (pos tok0) tok parent
            else if typ' tok = tokenExtends then parseExtends ext p (pos tok0) tok parent
            else otherStatement ext p (pos tok0) tok)"

subsection \<open>Sample tokens, states and externals\<close>

text \<open>
  Concrete inputs for the examples. \<open>sample_externals es\<close> renders an identifier as its
  name and a selector \<open>a.f\<close> on an identifier as such, quotes a string with double quotes,
  accepts every path, and has an expression parser that returns the expressions \<open>es\<close>
  for a token channel that spells them: it skips the identifier, number, comma and
  period tokens and returns the next token as the one after the expressions.
  \<open>template_state\<close> is the state of a template parse in context \<open>HTML\<close> with the given
  ancestors and tokens to come.
\<close>

definition at :: "int \<Rightarrow> Position" where
  "at n = \<lparr>Line = 1, Column = n + 1, Start = n, End' = n + 1\<rparr>"

definition tk :: "tokenType \<Rightarrow> int \<Rightarrow> string \<Rightarrow> token" where
  "tk ty n text = \<lparr>typ' = ty, pos = at n, txt' = text, ctx = ContextHTML\<rparr>"

definition sample_exprString :: "Expression \<Rightarrow> string" where
  "sample_exprString e =
     (case e of
        Identifier _ name \<Rightarrow> name
      | Selector_expr _ (Identifier _ name) field \<Rightarrow> name @ ''.'' @ field
      | String_expr _ s \<Rightarrow> [CHR 0x22] @ s @ [CHR 0x22]
      | _ \<Rightarrow> ''expr'')"

definition sample_parseExprList ::
  "Expression list \<Rightarrow> token option \<Rightarrow> token list \<Rightarrow> bool \<Rightarrow> bool \<Rightarrow> bool \<Rightarrow> bool
   \<Rightarrow> error + (Expression list \<times> token \<times> token list)" where
  "sample_parseExprList es first l f1 f2 f3 f4 =
     (case dropWhile (\<lambda>t. typ' t = tokenIdentifier \<or> typ' t = tokenNumber
                            \<or> typ' t = tokenComma \<or> typ' t = tokenPeriod) l of
        [] \<Rightarrow> Inl (Runtime (Panic ''next called after EOF''))
      | t # ts \<Rightarrow> Inr (es, t, ts))"

definition sample_externals :: "Expression list \<Rightarrow> externals" where
  "sample_externals es =
     \<lparr>tokenString = txt',
      exprString = sample_exprString,
      quote = (\<lambda>s. [CHR 0x22] @ s @ [CHR 0x22]),
      parseExprList = sample_parseExprList es,
      unquoteString = (\<lambda>s. butlast (tl s)),
      validPath = (\<lambda>s. True),
      otherStatement = (\<lambda>p at' t. Inl (Runtime (Panic ''another statement'')))\<rparr>"

definition template_state :: "Node list \<Rightarrow> token list \<Rightarrow> parsing" where
  "template_state as l =
     \<lparr>lex = l, isExtended = False, isInMacro = False, cutSpacesToken = False,
      ctx' = ContextHTML, ancestors = as, lastFallthroughTokenPos = at 0\<rparr>"

text \<open>The tokens of \<open>{% extends "/base" %}\<close> after the opening \<open>{%\<close>, which is
  \<open>start_token\<close>; and those of \<open>{% case ... %}\<close> around the tokens \<open>ts\<close> of the
  expressions.\<close>

definition start_token :: token where
  "start_token = tk tokenStartStatement 20 ''{%''"


definition case_tokens :: "token list \<Rightarrow> token list" where
  "case_tokens ts = [tk tokenCase 23 ''case''] @ ts @ [tk tokenEndStatement 40 ''%}'']"




definition open_typeswitch :: Node where
  "open_typeswitch = TypeSwitch (at 0) [Case (at 10) [Identifier (at 15) ''int''] [] False]"

subsection \<open>The tree cache\<close>

text \<open>
  Modelled from the spec: the cache is implemented in a file that is not at hand. The
  specification gives its three operations. \<open>Get(path, ctx)\<close> returns a completed tree
  with \<open>present = true\<close>; on a key reserved by a parse in progress it blocks until that
  parse is done; otherwise it reserves the key for the caller and returns
  \<open>(nil, false)\<close>. \<open>Add\<close> stores the completed tree. \<open>Done\<close> releases the reservation,
  clearing the slot if no tree was added. The cache is modelled as one caller sees it:
  a \<open>Get\<close> that would block on a reservation nobody else can release returns nothing
  (\<open>None\<close>).
\<close>

datatype entry = Reserved | Parsed Node

type_synonym cache = "(string \<times> Context) \<rightharpoonup> entry"

definition cache_get ::
  "cache \<Rightarrow> string \<Rightarrow> Context \<Rightarrow> ((Node option \<times> bool) \<times> cache) option" where
  "cache_get c path cx =
     (case c (path, cx) of
        Some (Parsed tree) \<Rightarrow> Some ((Some tree, True), c)
      | Some Reserved \<Rightarrow> None
      | None \<Rightarrow> Some ((None, False), c((path, cx) \<mapsto> Reserved)))"

definition cache_add :: "cache \<Rightarrow> string \<Rightarrow> Context \<Rightarrow> Node \<Rightarrow> cache" where
  "cache_add c path cx tree = c((path, cx) \<mapsto> Parsed tree)"

definition cache_done :: "cache \<Rightarrow> string \<Rightarrow> Context \<Rightarrow> cache" where
  "cache_done c path cx =
     (case c (path, cx) of Some Reserved \<Rightarrow> c((path, cx) := None) | _ \<Rightarrow> c)"

subsection \<open>The expander\<close>

text \<open>
  A reader returns the parsed, not yet expanded tree of a path, or an error. What the
  expander calls and this file does not define: \<open>%q\<close> of package \<open>fmt\<close>, the \<open>String\<close>
  method of positions, and \<open>toAbsolutePath\<close> (given a directory and a path, the cleaned
  absolute path or an error).
\<close>

record Parser =
  reader :: "string \<Rightarrow> Context \<Rightarrow> error + Node"
  trees :: cache

record expansion = Parser +
  paths :: "string list"

record helpers =
  quoted :: "string \<Rightarrow> string"
  positionString :: "Position \<Rightarrow> string"
  toAbsolutePath :: "string \<Rightarrow> string \<Rightarrow> error + string"

text \<open>\<open>strings.LastIndex(parent, "/") + 1\<close>: the length of the longest prefix of \<open>parent\<close>
  that ends with a slash, 0 if there is no slash.\<close>

fun dir_length :: "string \<Rightarrow> nat" where
  "dir_length [] = 0"
| "dir_length (c # cs) =
     (if dir_length cs > 0 then Suc (dir_length cs)
      else if c = CHR ''/'' then 1 else 0)"

text \<open>The method \<open>abs\<close> of an expansion; \<open>path[0]\<close> and \<open>pp.paths[len(pp.paths)-1]\<close>
  panic out of range.\<close>

definition abs_path :: "helpers \<Rightarrow> expansion \<Rightarrow> string \<Rightarrow> error + string" where
  "abs_path h pp path =
     (if path = [] then Inl (Runtime IndexOutOfRange)
      else if hd path = CHR ''/'' then toAbsolutePath h ''/'' (tl path)
      else if paths pp = [] then Inl (Runtime IndexOutOfRange)
      else
        let parent = last (paths pp);
            dir = take (dir_length parent) parent
        in toAbsolutePath h dir path)"

text \<open>A run of the expander: nothing (\<open>None\<close>) if it does not return, else the value or
  the error returned, with the state of the expansion.\<close>

type_synonym 'a run = "((error + 'a) \<times> expansion) option"

definition andThen :: "'a run \<Rightarrow> ('a \<Rightarrow> expansion \<Rightarrow> 'b run) \<Rightarrow> 'b run" where
  "andThen m f =
     (case m of
        None \<Rightarrow> None
      | Some (Inl e, pp) \<Rightarrow> Some (Inl e, pp)
      | Some (Inr x, pp) \<Rightarrow> f x pp)"

text \<open>A loop over nodes: each step works on the state the step before left, and the
  first error ends the loop.\<close>

primrec in_turn :: "(expansion \<Rightarrow> 'a run) list \<Rightarrow> expansion \<Rightarrow> ('a list) run" where
  "in_turn [] pp = Some (Inr [], pp)"
| "in_turn (f # fs) pp =
     andThen (f pp) (\<lambda>x pp. andThen (in_turn fs pp) (\<lambda>xs pp. Some (Inr (x # xs), pp)))"

text \<open>A syntax error without a path gets the path of the file: the test on \<open>e.Path == ""\<close>
  in \<open>parsePath\<close>.\<close>

definition fill_path :: "error \<Rightarrow> string \<Rightarrow> error" where
  "fill_path e path =
     (case e of
        SyntaxError se \<Rightarrow> if Path se = [] then SyntaxError (se\<lparr>Path := path\<rparr>) else e
      | _ \<Rightarrow> e)"

text \<open>The \<open>Extends\<close>, \<open>Import\<close> and \<open>Include\<close> cases of \<open>expand\<close>, after the test on the
  depth that \<open>Extends\<close> has alone: \<open>P\<close> is \<open>parsePath\<close>, \<open>what\<close> is \<open>extends path\<close>,
  \<open>import path\<close> or \<open>included path\<close>, and \<open>verb\<close> is \<open>imports\<close> (for \<open>Extends\<close> and
  \<open>Import\<close>) or \<open>include\<close>. The result is the tree for the field \<open>Tree\<close> of the node.\<close>

definition reference_error ::
  "helpers \<Rightarrow> string \<Rightarrow> string \<Rightarrow> Position \<Rightarrow> string \<Rightarrow> string \<Rightarrow> error \<Rightarrow> error" where
  "reference_error h what verb at' npath absPath e =
     (case e of
        ErrInvalidPath \<Rightarrow>
          Errorf (''invalid path '' @ quoted h npath @ '' at '' @ positionString h at')
      | ErrNotExist \<Rightarrow>
          SyntaxError \<lparr>Path = [], Pos = at',
                       Err = what @ '' '' @ quoted h absPath @ '' does not exist''\<rparr>
      | CycleError inner \<Rightarrow> CycleError (verb @ '' '' @ inner)
      | _ \<Rightarrow> e)"

definition expand_reference ::
  "(expansion \<Rightarrow> string \<Rightarrow> Context \<Rightarrow> Node run) \<Rightarrow> helpers \<Rightarrow> string \<Rightarrow> string \<Rightarrow> Position
   \<Rightarrow> string \<Rightarrow> Context \<Rightarrow> expansion \<Rightarrow> Node run" where
  "expand_reference P h what verb at' npath c pp =
     (case abs_path h pp npath of
        Inl e \<Rightarrow> Some (Inl e, pp)
      | Inr absPath \<Rightarrow>
          (case P pp absPath c of
             None \<Rightarrow> None
           | Some (Inl e, pp') \<Rightarrow>
               Some (Inl (reference_error h what verb at' npath absPath e), pp')
           | Some (Inr tree, pp') \<Rightarrow> Some (Inr tree, pp')))"

text \<open>
  \<open>expand\<close> follows the structure of the nodes. It is written as \<open>expandNode\<close>, the work
  on one node, which is told where the node stands: as a statement in a list of nodes
  (the body of the loop of \<open>expand\<close>), as the \<open>Then\<close> block or the \<open>Else\<close> branch of an
  \<open>if\<close> (the inner loop along the \<open>else if\<close> chain), or as a case of a switch. It
  returns the node with the \<open>Tree\<close> fields filled, which the source writes in place.
  The context argument of \<open>expand\<close> is only passed along in the source and is left out.
  \<open>Then\<close> is a \<open>*Block\<close> and the cases are \<open>*Case\<close> values in the source; another node
  in their place is an error here.
\<close>

datatype place = AsStatement | AsThen | AsElse | AsCase

definition untouched :: "place \<Rightarrow> Node \<Rightarrow> expansion \<Rightarrow> Node run" where
  "untouched r node pp =
     (if r = AsThen then Some (Inl (Runtime (Panic ''not a block'')), pp)
      else if r = AsCase then Some (Inl (Runtime (Panic ''not a case'')), pp)
      else Some (Inr node, pp))"

primrec expandNode ::
  "(expansion \<Rightarrow> string \<Rightarrow> Context \<Rightarrow> Node run) \<Rightarrow> helpers \<Rightarrow> Node \<Rightarrow> place \<Rightarrow> expansion
   \<Rightarrow> Node run" where
  "expandNode P h (Tree path nodes c) r pp = untouched r (Tree path nodes c) pp"
| "expandNode P h (Text p s ct) r pp = untouched r (Text p s ct) pp"
| "expandNode P h (URL p tag att v) r pp = untouched r (URL p tag att v) pp"
| "expandNode P h (Value p e c) r pp = untouched r (Value p e c) pp"
| "expandNode P h (Comment p s) r pp = untouched r (Comment p s) pp"
| "expandNode P h (If p a cond then' else') r pp =
     (if r = AsStatement \<or> r = AsElse
      then andThen (expandNode P h then' AsThen pp) (\<lambda>then'' pp.
             (case map_option (\<lambda>e. expandNode P h e AsElse) else' of
                None \<Rightarrow> Some (Inr (If p a cond then'' None), pp)
              | Some f \<Rightarrow>
                  andThen (f pp) (\<lambda>e' pp. Some (Inr (If p a cond then'' (Some e')), pp))))
      else untouched r (If p a cond then' else') pp)"
| "expandNode P h (Block bp nodes) r pp =
     (if r = AsThen \<or> r = AsElse
      then andThen (in_turn (map (\<lambda>n. expandNode P h n AsStatement) nodes) pp)
             (\<lambda>nodes' pp. Some (Inr (Block bp nodes'), pp))
      else untouched r (Block bp nodes) pp)"
| "expandNode P h (For p init cond post body) r pp =
     (if r = AsStatement
      then andThen (in_turn (map (\<lambda>n. expandNode P h n AsStatement) body) pp)
             (\<lambda>body' pp. Some (Inr (For p init cond post body'), pp))
      else untouched r (For p init cond post body) pp)"
| "expandNode P h (ForRange p a body) r pp =
     (if r = AsStatement
      then andThen (in_turn (map (\<lambda>n. expandNode P h n AsStatement) body) pp)
             (\<lambda>body' pp. Some (Inr (ForRange p a body'), pp))
      else untouched r (ForRange p a body) pp)"
| "expandNode P h (Break p) r pp = untouched r (Break p) pp"
| "expandNode P h (Continue p) r pp = untouched r (Continue p) pp"
| "expandNode P h (Switch p cases) r pp =
     (if r = AsStatement
      then andThen (in_turn (map (\<lambda>c. expandNode P h c AsCase) cases) pp)
             (\<lambda>cases' pp. Some (Inr (Switch p cases'), pp))
      else untouched r (Switch p cases) pp)"
| "expandNode P h (TypeSwitch p cases) r pp =
     (if r = AsStatement
      then andThen (in_turn (map (\<lambda>c. expandNode P h c AsCase) cases) pp)
             (\<lambda>cases' pp. Some (Inr (TypeSwitch p cases'), pp))
      else untouched r (TypeSwitch p cases) pp)"
| "expandNode P h (Case p es body ft) r pp =
     (if r = AsCase
      then andThen (in_turn (map (\<lambda>n. expandNode P h n AsStatement) body) pp)
             (\<lambda>body' pp. Some (Inr (Case p es body' ft), pp))
      else untouched r (Case p es body ft) pp)"
| "expandNode P h (Macro p ident params body variadic c) r pp =
     (if r = AsStatement
      then andThen (in_turn (map (\<lambda>n. expandNode P h n AsStatement) body) pp)
             (\<lambda>body' pp. Some (Inr (Macro p ident params body' variadic c), pp))
      else untouched r (Macro p ident params body variadic c) pp)"
| "expandNode P h (ShowMacro p impor macro args c) r pp =
     untouched r (ShowMacro p impor macro args c) pp"
| "expandNode P h (Include p npath c t) r pp =
     (if r = AsStatement
      then andThen (expand_reference P h ''included path'' ''include'' p npath c pp)
             (\<lambda>tree pp. Some (Inr (Include p npath c (Some tree)), pp))
      else untouched r (Include p npath c t) pp)"
| "expandNode P h (Extends p npath c t) r pp =
     (if r = AsStatement
      then if length (paths pp) > 1
           then Some (Inl (SyntaxError \<lparr>Path = [], Pos = p,
                  Err = ''extended, imported and included paths can not have extends''\<rparr>), pp)
           else andThen (expand_reference P h ''extends path'' ''imports'' p npath c pp)
                  (\<lambda>tree pp. Some (Inr (Extends p npath c (Some tree)), pp))
      else untouched r (Extends p npath c t) pp)"
| "expandNode P h (Import p ident npath c t) r pp =
     (if r = AsStatement
      then andThen (expand_reference P h ''import path'' ''imports'' p npath c pp)
             (\<lambda>tree pp. Some (Inr (Import p ident npath c (Some tree)), pp))
      else untouched r (Import p ident npath c t) pp)"
| "expandNode P h (Assignment p vs ty values) r pp = untouched r (Assignment p vs ty values) pp"
| "expandNode P h (Expr e) r pp = untouched r (Expr e) pp"

definition expand ::
  "(expansion \<Rightarrow> string \<Rightarrow> Context \<Rightarrow> Node run) \<Rightarrow> helpers \<Rightarrow> Node list \<Rightarrow> expansion
   \<Rightarrow> (Node list) run" where
  "expand P h nodes pp = in_turn (map (\<lambda>n. expandNode P h n AsStatement) nodes) pp"

text \<open>
  The body of \<open>parsePath\<close>, with \<open>P\<close> for the calls of \<open>parsePath\<close> that \<open>expand\<close> makes.
  The deferred \<open>Done\<close> runs on every return after the \<open>Get\<close> that missed. The path is
  pushed before \<open>expand\<close> and popped only when \<open>expand\<close> returns no error.
\<close>

definition parsePath_body ::
  "(expansion \<Rightarrow> string \<Rightarrow> Context \<Rightarrow> Node run) \<Rightarrow> helpers \<Rightarrow> expansion \<Rightarrow> string \<Rightarrow> Context
   \<Rightarrow> Node run" where
  "parsePath_body P h pp path cx =
     (if path \<in> set (paths pp) then Some (Inl (CycleError path), pp)
      else
        (case cache_get (trees pp) path cx of
           None \<Rightarrow> None
         | Some ((Some tree, True), c) \<Rightarrow> Some (Inr tree, pp\<lparr>trees := c\<rparr>)
         | Some (_, c) \<Rightarrow>
             (case reader pp path cx of
                Inl e \<Rightarrow> Some (Inl e, pp\<lparr>trees := cache_done c path cx\<rparr>)
              | Inr (Tree _ nodes tctx) \<Rightarrow>
                  (case expand P h nodes (pp\<lparr>trees := c, paths := paths pp @ [path]\<rparr>) of
                     None \<Rightarrow> None
                   | Some (Inl e, pp') \<Rightarrow>
                       Some (Inl (fill_path e path),
                             pp'\<lparr>trees := cache_done (trees pp') path cx\<rparr>)
                   | Some (Inr nodes', pp') \<Rightarrow>
                       Some (Inr (Tree path nodes' tctx),
                             pp'\<lparr>paths := butlast (paths pp'),
                                 trees := cache_done
                                   (cache_add (trees pp') path cx (Tree path nodes' tctx))
                                   path cx\<rparr>))
              | Inr _ \<Rightarrow>
                  Some (Inl (Runtime (Panic ''not a tree'')),
                        pp\<lparr>trees := cache_done c path cx\<rparr>))))"

text \<open>
  \<open>parsePath\<close> and \<open>expand\<close> call each other and need not return: a reader may lead from
  each path to a new one. The first argument of \<open>parsePath\<close> bounds the depth of its
  calls inside each other; a run that needs more gives \<open>None\<close>.
\<close>

primrec parsePath :: "nat \<Rightarrow> helpers \<Rightarrow> expansion \<Rightarrow> string \<Rightarrow> Context \<Rightarrow> Node run" where
  "parsePath 0 h pp path cx = None"
| "parsePath (Suc n) h pp path cx = parsePath_body (parsePath n h) h pp path cx"

text \<open>\<open>Parse\<close> returns the tree or the error, and the cache as the call leaves it.\<close>

definition Parse ::
  "nat \<Rightarrow> helpers \<Rightarrow> Parser \<Rightarrow> string \<Rightarrow> Context \<Rightarrow> ((error + Node) \<times> cache) option" where
  "Parse fuel h p path cx =
     (if path = [] then Some (Inl ErrInvalidPath, trees p)
      else
        (case toAbsolutePath h ''/'' (if hd path = CHR ''/'' then tl path else path) of
           Inl e \<Rightarrow> Some (Inl e, trees p)
         | Inr path \<Rightarrow>
             (case parsePath fuel h \<lparr>reader = reader p, trees = trees p, paths = []\<rparr> path cx of
                None \<Rightarrow> None
              | Some (Inl e, pp) \<Rightarrow>
                  Some (Inl (case e of
                               SyntaxError se \<Rightarrow>
                                 if Path se = [] then SyntaxError (se\<lparr>Path := path\<rparr>) else e
                             | CycleError inner \<Rightarrow>
                                 CycleError (path @ [CHR 0x0A, CHR 0x09] @ inner)
                             | _ \<Rightarrow> e),
                        trees pp)
              | Some (Inr tree, pp) \<Rightarrow> Some (Inr tree, trees pp))))"

subsection \<open>Two templates that include each other\<close>

text \<open>
  The reader of a template root with two files: \<open>/a\<close> is \<open>{% include "/b" %}\<close> and \<open>/b\<close>
  is \<open>{% include "/a" %}\<close>. \<open>sample_helpers\<close> joins a directory and a path, which is what
  \<open>toAbsolutePath\<close> is to return for paths without \<open>..\<close>.
\<close>

definition cycle_reader :: "string \<Rightarrow> Context \<Rightarrow> error + Node" where
  "cycle_reader path cx =
     (if path = ''/a'' then Inr (Tree [] [Include (at 0) ''/b'' ContextHTML None] ContextHTML)
      else if path = ''/b'' then Inr (Tree [] [Include (at 0) ''/a'' ContextHTML None] ContextHTML)
      else Inl ErrNotExist)"

definition sample_helpers :: helpers where
  "sample_helpers =
     \<lparr>quoted = (\<lambda>s. [CHR 0x22] @ s @ [CHR 0x22]),
      positionString = (\<lambda>p. ''1:1''),
      toAbsolutePath = (\<lambda>dir path. Inr (dir @ path))\<rparr>"

section \<open>Properties of the bytecode emitter\<close>

subsection \<open>Registers and virtual stacks\<close>

lemmas register_defs =
  EnterStack_def NewRegister_def allocRegister_def classKind_def regs_get_def raise_def
  ExitStack_def word_sless_alt Let_def

lemmas end_defs = End_def bindP_def commitAll_def commit_def all_kinds_def

lemma register_reuse_run_eq:
  "register_reuse_run pkg name =
     Inr (1, 2, 1, (NewScrigoFunction pkg name)\<lparr>RegNum := [2, 0, 0, 0]\<rparr>)"
proof -
  let ?f = "NewScrigoFunction pkg name :: 'a ScrigoFunction"
  let ?b1 = "(NewBuilder ?f)\<lparr>scopeShifts := [(0, 0, 0, 0)]\<rparr>"
  let ?b2 = "?b1\<lparr>maxRegs := [reflect_Int \<mapsto> 1], numRegs := [reflect_Int \<mapsto> 1]\<rparr>"
  let ?b3 = "?b1\<lparr>maxRegs := [reflect_Int \<mapsto> 2], numRegs := [reflect_Int \<mapsto> 2]\<rparr>"
  let ?b4 = "?b3\<lparr>numRegs := [reflect_Int \<mapsto> 0, reflect_Float64 \<mapsto> 0,
                            reflect_String \<mapsto> 0, reflect_Interface \<mapsto> 0],
                scopeShifts := []\<rparr>"
  let ?b5 = "?b4\<lparr>numRegs := [reflect_Int \<mapsto> 1, reflect_Float64 \<mapsto> 0,
                            reflect_String \<mapsto> 0, reflect_Interface \<mapsto> 0]\<rparr>"
  have s1: "EnterStack (NewBuilder ?f) = ?b1"
    by (simp add: NewBuilder_def register_defs)
  have s2: "NewRegister ?b1 reflect_Int = (1, ?b2)"
    by (simp add: NewBuilder_def register_defs)
  have s3: "NewRegister ?b2 reflect_Int = (2, ?b3)"
    by (simp add: NewBuilder_def register_defs)
  have s4: "ExitStack ?b3 = Inr ?b4"
    by (simp add: NewBuilder_def register_defs)
  have s5: "NewRegister ?b4 reflect_Int = (1, ?b5)"
    by (simp add: NewBuilder_def register_defs fun_upd_twist)
  have s6: "End ?b5 = Inr (?b5\<lparr>fn := ?f\<lparr>RegNum := [2, 0, 0, 0]\<rparr>, gotos := None\<rparr>)"
    by (simp add: NewBuilder_def NewScrigoFunction_def end_defs)
  show ?thesis
    unfolding register_reuse_run_def
    by (simp only: Let_def s1 s2 s3 s4 s5 s6 prod.case bindP_def sum.case) simp
qed

text \<open>
  Claim C1. For the call sequence \<open>EnterStack; r1 = NewRegister(Int); r2 = NewRegister(Int);
  ExitStack; r3 = NewRegister(Int); End()\<close> on a fresh builder, the returned registers are
  \<open>r1 = 1\<close>, \<open>r2 = 2\<close> and \<open>r3 = 1\<close>, and the finished function has \<open>RegNum[0] = 2\<close>.
\<close>

theorem register_reuse:
  "case register_reuse_run pkg name of
     Inl e \<Rightarrow> False
   | Inr (r1, r2, r3, f :: 'v ScrigoFunction) \<Rightarrow>
       r1 = 1 \<and> r2 = 2 \<and> r3 = 1 \<and> RegNum f ! 0 = 2"
  by (simp add: register_reuse_run_eq)

subsection \<open>Jump addresses\<close>

lemma decode_encode: "(case encodeAddr v of (a, b, c) \<Rightarrow> decodeAddr a b c) = take_bit 24 v"
  unfolding encodeAddr_def decodeAddr_def
  apply (simp only: prod.case)
  apply (rule bit_word_eqI)
  subgoal for n
    by (cases "n < 8"; cases "n < 16"; cases "n < 24"; simp add: bit_simps; linarith?)
  done

text \<open>
  Claim C7. For every value \<open>v\<close> in \<open>[0, 2^24)\<close>, encoding \<open>v\<close> into the three operand
  bytes with \<open>encodeAddr\<close> and decoding them back, little-endian, gives \<open>v\<close> again.
\<close>

theorem encodeAddr_roundtrip:
  "v < 2 ^ 24 \<Longrightarrow> (case encodeAddr v of (a, b, c) \<Rightarrow> decodeAddr a b c) = v"
  using less_mask_eq [of v 24] by (simp only: decode_encode take_bit_eq_mask)

theorem encodeAddr_roundtrip_witness:
  "(74565 :: uint32) < 2 ^ 24
   \<and> (case encodeAddr 74565 of (a, b, c) \<Rightarrow> decodeAddr a b c) = 74565"
  using encodeAddr_roundtrip [of 74565] by simp

lemma forward_jump_run_eq:
  "forward_jump_run pkg name =
     Inr (1, (NewScrigoFunction pkg name)
               \<lparr>Body := [\<lparr>Op = Plain OpGoto, A = 2, B = 0, C = 0\<rparr>,
                         \<lparr>Op = Plain OpNone, A = 0, B = 0, C = 0\<rparr>]\<rparr>)"
  apply (simp add: forward_jump_run_def NewLabel_def NewBuilder_def NewScrigoFunction_def Let_def)
  apply (simp add: Goto_def CurrentAddr_def emit_def bindP_def)
  apply (simp add: Nop_def emit_def SetLabelAddr_def CurrentAddr_def Let_def)
  apply (simp add: End_def bindP_def encodeAddr_def)
  apply (simp add: commitAll_def all_kinds_def)
  done

text \<open>
  Claim C2. For the sequence \<open>lbl = NewLabel(); Goto(lbl); a = CurrentAddr(); Nop();
  SetLabelAddr(lbl); End()\<close> on a fresh builder, the run does not panic, the first
  instruction of the finished body is the \<open>Goto\<close>, and its operands \<open>(A, B, C)\<close>, decoded
  as a little-endian 24-bit value, are \<open>a + 1\<close>.
\<close>

theorem forward_jump:
  "case forward_jump_run pkg name of
     Inl e \<Rightarrow> False
   | Inr (a, f :: 'v ScrigoFunction) \<Rightarrow>
       Op (Body f ! 0) = Plain OpGoto
       \<and> decodeAddr (A (Body f ! 0)) (B (Body f ! 0)) (C (Body f ! 0)) = a + 1"
  by (simp add: forward_jump_run_eq decodeAddr_def)

subsection \<open>Constant indices\<close>

lemma General_withGeneral: "General (Constants (fn (withGeneral b g))) = g"
  by (simp add: withGeneral_def)

lemma withGeneral_twice: "withGeneral (withGeneral b g) h = withGeneral b h"
  by (simp add: withGeneral_def)

lemma MakeInterfaceConstant_ok:
  "length (General (Constants (fn b))) \<noteq> 128 \<Longrightarrow>
   MakeInterfaceConstant b c =
     Inr (word_of_int (- (int (length (General (Constants (fn b)))) + 1)),
          withGeneral b (General (Constants (fn b)) @ [c]))"
  by (simp add: MakeInterfaceConstant_def withGeneral_def Let_def)

lemma MakeInterfaceConstant_fatal:
  "length (General (Constants (fn b))) = 128 \<Longrightarrow>
   MakeInterfaceConstant b c = Inl (Panic ''interface refs limit reached'')"
  by (simp add: MakeInterfaceConstant_def Let_def)

lemma sint_interface_index:
  "n < 128 \<Longrightarrow> sint (word_of_int (- (int n + 1)) :: int8) = - (int n + 1)"
  unfolding sint_sbintrunc' by (simp add: signed_take_bit_int_eq_self)

lemma MakeInterfaceConstants_ok:
  "length (General (Constants (fn b))) + length cs \<le> 128 \<Longrightarrow>
   MakeInterfaceConstants b cs =
     Inr (map (\<lambda>k. word_of_int (- (int (length (General (Constants (fn b))) + k) + 1)))
            [0..<length cs],
          withGeneral b (General (Constants (fn b)) @ cs))"
proof (induction cs arbitrary: b)
  case Nil
  then show ?case by (simp add: withGeneral_def)
next
  case (Cons c cs)
  let ?n = "length (General (Constants (fn b)))"
  let ?b = "withGeneral b (General (Constants (fn b)) @ [c])"
  from Cons.prems have n: "?n \<noteq> 128" by simp
  have step: "length (General (Constants (fn ?b))) + length cs \<le> 128"
    using Cons.prems by (simp add: General_withGeneral)
  have shift: "[0..<Suc (length cs)] = 0 # map Suc [0..<length cs]"
    by (simp add: upt_conv_Cons map_Suc_upt del: upt_Suc)
  have ih: "MakeInterfaceConstants ?b cs =
      Inr (map (\<lambda>k. word_of_int (- (int (Suc ?n + k) + 1))) [0..<length cs],
           withGeneral b (General (Constants (fn b)) @ c # cs))"
    using Cons.IH [OF step] by (simp add: General_withGeneral withGeneral_twice)
  show ?case
    by (simp add: MakeInterfaceConstant_ok [OF n] ih shift o_def del: upt_Suc)
qed

lemma MakeInterfaceConstants_fatal:
  "length (General (Constants (fn b))) \<le> 128 \<Longrightarrow>
   128 < length (General (Constants (fn b))) + length cs \<Longrightarrow>
   MakeInterfaceConstants b cs = Inl (Panic ''interface refs limit reached'')"
proof (induction cs arbitrary: b)
  case Nil
  then show ?case by simp
next
  case (Cons c cs)
  show ?case
  proof (cases "length (General (Constants (fn b))) = 128")
    case True
    then show ?thesis by (simp add: MakeInterfaceConstant_fatal)
  next
    case False
    let ?b = "withGeneral b (General (Constants (fn b)) @ [c])"
    from False Cons.prems have "length (General (Constants (fn ?b))) \<le> 128"
      and "128 < length (General (Constants (fn ?b))) + length cs"
      by (simp_all add: General_withGeneral)
    from Cons.IH [OF this] show ?thesis
      by (simp add: MakeInterfaceConstant_ok [OF False])
  qed
qed

text \<open>
  On a \<open>General\<close> pool of fewer than 128 entries, \<open>MakeInterfaceConstant\<close> appends its
  argument and returns the negative index \<open>-(len(General) + 1)\<close>, with the length read
  before the append (so the index is minus the length after it). The call on a pool of
  exactly 128 entries, where the index would be -129, panics. On a builder with an empty
  \<open>General\<close> pool the first 128 calls in a row succeed, the \<open>k\<close>-th one returning \<open>-k\<close>,
  and the 129th panics.
\<close>

theorem MakeInterfaceConstant_limit:
  fixes b :: "'v FunctionBuilder"
  shows
  "(length (General (Constants (fn b))) < 128 \<longrightarrow>
      (\<exists>r b'. MakeInterfaceConstant b c = Inr (r, b')
         \<and> General (Constants (fn b')) = General (Constants (fn b)) @ [c]
         \<and> sint r = - (int (length (General (Constants (fn b)))) + 1)
         \<and> sint r = - int (length (General (Constants (fn b'))))
         \<and> sint r < 0))
   \<and> (length (General (Constants (fn b))) = 128 \<longrightarrow>
        MakeInterfaceConstant b c = Inl (Panic ''interface refs limit reached''))
   \<and> (General (Constants (fn b)) = [] \<and> length cs \<le> 128 \<longrightarrow>
        (\<exists>rs b'. MakeInterfaceConstants b cs = Inr (rs, b')
           \<and> map sint rs = map (\<lambda>k. - (int k + 1)) [0..<length cs]
           \<and> General (Constants (fn b')) = cs))
   \<and> (General (Constants (fn b)) = [] \<and> length cs = 129 \<longrightarrow>
        MakeInterfaceConstants b cs = Inl (Panic ''interface refs limit reached''))"
proof (intro conjI impI)
  assume n: "length (General (Constants (fn b))) < 128"
  then have "length (General (Constants (fn b))) \<noteq> 128" by simp
  from MakeInterfaceConstant_ok [OF this, of c] sint_interface_index [OF n]
  show "\<exists>r b'. MakeInterfaceConstant b c = Inr (r, b')
         \<and> General (Constants (fn b')) = General (Constants (fn b)) @ [c]
         \<and> sint r = - (int (length (General (Constants (fn b)))) + 1)
         \<and> sint r = - int (length (General (Constants (fn b'))))
         \<and> sint r < 0"
    by (simp add: General_withGeneral)
next
  assume "length (General (Constants (fn b))) = 128"
  then show "MakeInterfaceConstant b c = Inl (Panic ''interface refs limit reached'')"
    by (rule MakeInterfaceConstant_fatal)
next
  assume a: "General (Constants (fn b)) = [] \<and> length cs \<le> 128"
  then have "length (General (Constants (fn b))) + length cs \<le> 128" by simp
  from MakeInterfaceConstants_ok [OF this] a
  have run: "MakeInterfaceConstants b cs =
      Inr (map (\<lambda>k. word_of_int (- (int k + 1))) [0..<length cs], withGeneral b cs)"
    by simp
  have sints: "map sint (map (\<lambda>k. word_of_int (- (int k + 1)) :: int8) [0..<length cs]) =
      map (\<lambda>k. - (int k + 1)) [0..<length cs]"
    unfolding map_map o_def
  proof (rule map_cong [OF refl])
    fix k assume "k \<in> set [0..<length cs]"
    with a have "k < 128" by simp
    then show "sint (word_of_int (- (int k + 1)) :: int8) = - (int k + 1)"
      by (rule sint_interface_index)
  qed
  show "\<exists>rs b'. MakeInterfaceConstants b cs = Inr (rs, b')
           \<and> map sint rs = map (\<lambda>k. - (int k + 1)) [0..<length cs]
           \<and> General (Constants (fn b')) = cs"
  proof (intro exI conjI)
    show "MakeInterfaceConstants b cs =
      Inr (map (\<lambda>k. word_of_int (- (int k + 1))) [0..<length cs], withGeneral b cs)"
      by (rule run)
    show "map sint (map (\<lambda>k. word_of_int (- (int k + 1)) :: int8) [0..<length cs]) =
      map (\<lambda>k. - (int k + 1)) [0..<length cs]"
      by (rule sints)
    show "General (Constants (fn (withGeneral b cs))) = cs"
      by (rule General_withGeneral)
  qed
next
  assume "General (Constants (fn b)) = [] \<and> length cs = 129"
  then show "MakeInterfaceConstants b cs = Inl (Panic ''interface refs limit reached'')"
    by (intro MakeInterfaceConstants_fatal) simp_all
qed


theorem MakeInterfaceConstant_limit_witness:
  "MakeInterfaceConstants (NewBuilder (NewScrigoFunction ''main'' ''f'')) (replicate 129 ())
     = Inl (Panic ''interface refs limit reached'')
   \<and> (\<exists>rs b'. MakeInterfaceConstants (NewBuilder (NewScrigoFunction ''main'' ''f''))
                  (replicate 128 ()) = Inr (rs, b')
         \<and> map sint rs = map (\<lambda>k. - (int k + 1)) [0..<length (replicate 128 ())]
         \<and> General (Constants (fn b')) = replicate 128 ())
   \<and> (\<exists>r b'. MakeInterfaceConstant (NewBuilder (NewScrigoFunction ''main'' ''f'')) () = Inr (r, b')
         \<and> General (Constants (fn b')) =
             General (Constants (fn (NewBuilder (NewScrigoFunction ''main'' ''f'')))) @ [()]
         \<and> sint r = - (int (length (General (Constants
               (fn (NewBuilder (NewScrigoFunction ''main'' ''f'') :: unit FunctionBuilder))))) + 1)
         \<and> sint r = - int (length (General (Constants (fn b'))))
         \<and> sint r < 0)
   \<and> MakeInterfaceConstant
        (withGeneral (NewBuilder (NewScrigoFunction ''main'' ''f'')) (replicate 128 ())) ()
       = Inl (Panic ''interface refs limit reached'')"
proof -
  let ?b = "NewBuilder (NewScrigoFunction ''main'' ''f'') :: unit FunctionBuilder"
  have e: "General (Constants (fn ?b)) = []"
    by (simp add: NewBuilder_def NewScrigoFunction_def)
  have h1: "General (Constants (fn ?b)) = [] \<and> length (replicate 129 ()) = 129"
    using e by simp
  have h2: "General (Constants (fn ?b)) = [] \<and> length (replicate 128 ()) \<le> 128"
    using e by simp
  have h3: "length (General (Constants (fn ?b))) < 128"
    using e by simp
  have h4: "length (General (Constants (fn (withGeneral ?b (replicate 128 ()))))) = 128"
    by (simp add: General_withGeneral)
  note w1 = MakeInterfaceConstant_limit [of ?b "()" "replicate 129 ()",
      THEN conjunct2, THEN conjunct2, THEN conjunct2, THEN mp, OF h1]
  note w2 = MakeInterfaceConstant_limit [of ?b "()" "replicate 128 ()",
      THEN conjunct2, THEN conjunct2, THEN conjunct1, THEN mp, OF h2]
  note w3 = MakeInterfaceConstant_limit [of ?b "()" "[]", THEN conjunct1, THEN mp, OF h3]
  note w4 = MakeInterfaceConstant_limit [of "withGeneral ?b (replicate 128 ())" "()" "[]",
      THEN conjunct2, THEN conjunct1, THEN mp, OF h4]
  show ?thesis by (rule conjI [OF w1 conjI [OF w2 conjI [OF w3 w4]]])
qed

lemma MakeGeneralConstant_ok:
  "length (General (Constants (fn b))) \<le> 255 \<Longrightarrow>
   MakeGeneralConstant b v =
     Inr (of_nat (length (General (Constants (fn b)))),
          withGeneral b (General (Constants (fn b)) @ [v]))"
  by (simp add: MakeGeneralConstant_def withGeneral_def Let_def)

lemma MakeGeneralConstants_ok:
  "length (General (Constants (fn b))) + length vs \<le> 256 \<Longrightarrow>
   MakeGeneralConstants b vs =
     Inr (map (\<lambda>k. of_nat (length (General (Constants (fn b))) + k)) [0..<length vs],
          withGeneral b (General (Constants (fn b)) @ vs))"
proof (induction vs arbitrary: b)
  case Nil
  then show ?case by (simp add: withGeneral_def)
next
  case (Cons v vs)
  let ?n = "length (General (Constants (fn b)))"
  let ?b = "withGeneral b (General (Constants (fn b)) @ [v])"
  from Cons.prems have n: "?n \<le> 255" by simp
  have step: "length (General (Constants (fn ?b))) + length vs \<le> 256"
    using Cons.prems by (simp add: General_withGeneral)
  have shift: "[0..<Suc (length vs)] = 0 # map Suc [0..<length vs]"
    by (simp add: upt_conv_Cons map_Suc_upt del: upt_Suc)
  have ih: "MakeGeneralConstants ?b vs =
      Inr (map (\<lambda>k. of_nat (Suc ?n + k)) [0..<length vs],
           withGeneral b (General (Constants (fn b)) @ v # vs))"
    using Cons.IH [OF step] by (simp add: General_withGeneral withGeneral_twice)
  show ?case
    by (simp add: MakeGeneralConstant_ok [OF n] ih shift o_def del: upt_Suc)
qed

lemma general_then_interface_run_eq:
  assumes "length vs = 129"
  shows "general_then_interface_run pkg name vs c =
     Inr (126, withGeneral (NewBuilder (NewScrigoFunction pkg name)) (vs @ [c]))"
proof -
  let ?b = "NewBuilder (NewScrigoFunction pkg name) :: 'a FunctionBuilder"
  have e: "General (Constants (fn ?b)) = []"
    by (simp add: NewBuilder_def NewScrigoFunction_def)
  have "length (General (Constants (fn ?b))) + length vs \<le> 256"
    using assms e by simp
  from MakeGeneralConstants_ok [OF this]
  have run: "MakeGeneralConstants ?b vs =
      Inr (map (\<lambda>k. of_nat k) [0..<length vs], withGeneral ?b vs)"
    by (simp add: e)
  have "length (General (Constants (fn (withGeneral ?b vs)))) \<noteq> 128"
    using assms by (simp add: General_withGeneral)
  from MakeInterfaceConstant_ok [OF this, of c]
  have last: "MakeInterfaceConstant (withGeneral ?b vs) c =
      Inr (126, withGeneral ?b (vs @ [c]))"
    using assms by (simp add: General_withGeneral withGeneral_twice)
  show ?thesis
    unfolding general_then_interface_run_def run
    by (simp add: bindP_def last)
qed

text \<open>
  Claim C6, evaluated where it fails. On a fresh builder, 129 calls of
  \<open>MakeGeneralConstant\<close> followed by one call of \<open>MakeInterfaceConstant\<close>: the last call
  does not panic, appends its argument as the 130th entry of the \<open>General\<close> pool and
  returns \<open>int8(-130)\<close>, which is the positive index 126, and not a negative one.
\<close>

theorem MakeInterfaceConstant_positive_index:
  "case general_then_interface_run ''main'' ''f'' (replicate 129 ()) () of
     Inl e \<Rightarrow> False
   | Inr (r, b) \<Rightarrow>
       sint r = 126 \<and> length (General (Constants (fn b))) = 130"
  by (simp add: general_then_interface_run_eq General_withGeneral)

lemma sint_wrapped_index:
  assumes "128 \<le> n" and "n \<le> 255"
  shows "sint (of_nat n :: int8) = int n - 256"
proof -
  have "sint (of_nat n :: int8) = signed_take_bit 7 (int n)"
    by (simp add: signed_of_nat)
  also have "\<dots> = take_bit 8 (int n + 128) - 128"
    by (simp add: signed_take_bit_eq_take_bit_shift)
  also have "\<dots> = (int n + 128) mod 256 - 128"
    by (simp add: take_bit_eq_mod)
  also have "(int n + 128) mod 256 = int n + 128 - 256"
    using assms by (simp add: mod_pos_geq)
  finally show ?thesis by simp
qed

lemma interface_index_eq:
  assumes "128 \<le> n" and "n \<le> 255"
  shows "(word_of_int (- int (255 - n) - 1) :: int8) = of_nat n"
proof -
  have "- int (255 - n) - 1 = int n - 256" using assms by simp
  moreover have "(word_of_int (int n - 256) :: int8) = of_nat n"
    by simp
  ultimately show ?thesis by (simp only:)
qed

lemma MakeInterfaceConstant_collides:
  "128 \<le> n \<Longrightarrow> n \<le> 255 \<Longrightarrow> length (General (Constants (fn g))) = 255 - n \<Longrightarrow>
   \<exists>g'. MakeInterfaceConstant g v = Inr (of_nat n, g')"
  using interface_index_eq [of n]
  by (simp add: MakeInterfaceConstant_def Let_def)

text \<open>
  Claim C10. A call of \<open>MakeIntConstant\<close>, \<open>MakeFloatConstant\<close>, \<open>MakeStringConstant\<close> or
  \<open>MakeGeneralConstant\<close> on a pool of \<open>n\<close> entries succeeds whenever \<open>n \<le> 255\<close>, appends
  the constant at position \<open>n\<close> and returns \<open>int8(n)\<close>. For \<open>128 \<le> n \<le> 255\<close> that
  index reads as the negative number \<open>n - 256\<close>, which is not the position of the entry and
  is the very index that \<open>MakeInterfaceConstant\<close> returns on a \<open>General\<close> pool of
  \<open>255 - n\<close> entries. The first error is raised on a pool of 256 entries, whose length
  the call would take beyond 256.
\<close>

theorem constant_index_wraps:
  fixes b g :: "'v FunctionBuilder"
  shows
  "(n \<le> 255 \<longrightarrow>
      (length (Int' (Constants (fn b))) = n \<longrightarrow>
         MakeIntConstant b ci =
           Inr (of_nat n, b\<lparr>fn := (fn b)\<lparr>Constants := (Constants (fn b))
                            \<lparr>Int' := Int' (Constants (fn b)) @ [ci]\<rparr>\<rparr>\<rparr>))
      \<and> (length (Float (Constants (fn b))) = n \<longrightarrow>
         MakeFloatConstant b cf =
           Inr (of_nat n, b\<lparr>fn := (fn b)\<lparr>Constants := (Constants (fn b))
                            \<lparr>Float := Float (Constants (fn b)) @ [cf]\<rparr>\<rparr>\<rparr>))
      \<and> (length (String (Constants (fn b))) = n \<longrightarrow>
         MakeStringConstant b cs =
           Inr (of_nat n, b\<lparr>fn := (fn b)\<lparr>Constants := (Constants (fn b))
                            \<lparr>String := String (Constants (fn b)) @ [cs]\<rparr>\<rparr>\<rparr>))
      \<and> (length (General (Constants (fn b))) = n \<longrightarrow>
         MakeGeneralConstant b cg =
           Inr (of_nat n, b\<lparr>fn := (fn b)\<lparr>Constants := (Constants (fn b))
                            \<lparr>General := General (Constants (fn b)) @ [cg]\<rparr>\<rparr>\<rparr>)))
   \<and> (128 \<le> n \<and> n \<le> 255 \<longrightarrow>
        sint (of_nat n :: int8) = int n - 256
        \<and> sint (of_nat n :: int8) < 0
        \<and> sint (of_nat n :: int8) \<noteq> int n
        \<and> (length (General (Constants (fn g))) = 255 - n \<longrightarrow>
             (\<exists>g'. MakeInterfaceConstant g v = Inr (of_nat n, g'))))
   \<and> (256 \<le> n \<longrightarrow>
        (length (Int' (Constants (fn b))) = n \<longrightarrow>
           MakeIntConstant b ci = Inl (Panic ''int refs limit reached''))
        \<and> (length (Float (Constants (fn b))) = n \<longrightarrow>
           MakeFloatConstant b cf = Inl (Panic ''float refs limit reached''))
        \<and> (length (String (Constants (fn b))) = n \<longrightarrow>
           MakeStringConstant b cs = Inl (Panic ''string refs limit reached''))
        \<and> (length (General (Constants (fn b))) = n \<longrightarrow>
           MakeGeneralConstant b cg = Inl (Panic ''general refs limit reached'')))"
proof (intro conjI impI)
  assume "128 \<le> n \<and> n \<le> 255"
  then have n: "128 \<le> n" "n \<le> 255" by simp_all
  from sint_wrapped_index [OF n] show "sint (of_nat n :: int8) = int n - 256" .
  from sint_wrapped_index [OF n] n show "sint (of_nat n :: int8) < 0" by simp
  from sint_wrapped_index [OF n] show "sint (of_nat n :: int8) \<noteq> int n" by simp
  assume "length (General (Constants (fn g))) = 255 - n"
  with n show "\<exists>g'. MakeInterfaceConstant g v = Inr (of_nat n, g')"
    by (intro MakeInterfaceConstant_collides)
qed (simp_all add: MakeIntConstant_def MakeFloatConstant_def MakeStringConstant_def
      MakeGeneralConstant_def Let_def)

lemma length_pools_of_length:
  "length (Int' (Constants (fn (pools_of_length n)))) = n"
  "length (Float (Constants (fn (pools_of_length n)))) = n"
  "length (String (Constants (fn (pools_of_length n)))) = n"
  "length (General (Constants (fn (pools_of_length n)))) = n"
  by (simp_all add: pools_of_length_def)

theorem constant_index_wraps_witness:
  "MakeIntConstant (pools_of_length 128) 7 =
     Inr (of_nat 128, (pools_of_length 128)\<lparr>fn := (fn (pools_of_length 128))
            \<lparr>Constants := (Constants (fn (pools_of_length 128)))
               \<lparr>Int' := Int' (Constants (fn (pools_of_length 128))) @ [7]\<rparr>\<rparr>\<rparr>)
   \<and> MakeFloatConstant (pools_of_length 128) 7 =
     Inr (of_nat 128, (pools_of_length 128)\<lparr>fn := (fn (pools_of_length 128))
            \<lparr>Constants := (Constants (fn (pools_of_length 128)))
               \<lparr>Float := Float (Constants (fn (pools_of_length 128))) @ [7]\<rparr>\<rparr>\<rparr>)
   \<and> MakeStringConstant (pools_of_length 128) ''c'' =
     Inr (of_nat 128, (pools_of_length 128)\<lparr>fn := (fn (pools_of_length 128))
            \<lparr>Constants := (Constants (fn (pools_of_length 128)))
               \<lparr>String := String (Constants (fn (pools_of_length 128))) @ [''c'']\<rparr>\<rparr>\<rparr>)
   \<and> MakeGeneralConstant (pools_of_length 128) () =
     Inr (of_nat 128, (pools_of_length 128)\<lparr>fn := (fn (pools_of_length 128))
            \<lparr>Constants := (Constants (fn (pools_of_length 128)))
               \<lparr>General := General (Constants (fn (pools_of_length 128))) @ [()]\<rparr>\<rparr>\<rparr>)
   \<and> sint (of_nat 128 :: int8) = - 128
   \<and> (\<exists>g'. MakeInterfaceConstant (pools_of_length 127) () = Inr (of_nat 128, g'))
   \<and> MakeIntConstant (pools_of_length 256) 7 = Inl (Panic ''int refs limit reached'')
   \<and> MakeFloatConstant (pools_of_length 256) 7 = Inl (Panic ''float refs limit reached'')
   \<and> MakeStringConstant (pools_of_length 256) ''c'' = Inl (Panic ''string refs limit reached'')
   \<and> MakeGeneralConstant (pools_of_length 256) () = Inl (Panic ''general refs limit reached'')"
proof -
  note T = constant_index_wraps [where n = 128 and b = "pools_of_length 128" and ci = 7
      and cf = 7 and cs = "''c''" and cg = "()" and g = "pools_of_length 127" and v = "()"]
  note U = constant_index_wraps [where n = 256 and b = "pools_of_length 256" and ci = 7
      and cf = 7 and cs = "''c''" and cg = "()" and g = "pools_of_length 127" and v = "()"]
  have le: "(128::nat) \<le> 255" and range: "(128::nat) \<le> 128 \<and> (128::nat) \<le> 255"
    and big: "(256::nat) \<le> 256" and g: "length (General (Constants (fn (pools_of_length 127)))) = 255 - 128"
    by (simp_all add: length_pools_of_length)
  note ok = T [THEN conjunct1, THEN mp, OF le]
  note wrap = T [THEN conjunct2, THEN conjunct1, THEN mp, OF range]
  note fatal = U [THEN conjunct2, THEN conjunct2, THEN mp, OF big]
  have s: "sint (of_nat 128 :: int8) = - 128"
    using wrap [THEN conjunct1] by simp
  show ?thesis
    using ok [THEN conjunct1, THEN mp, OF length_pools_of_length(1)]
      ok [THEN conjunct2, THEN conjunct1, THEN mp, OF length_pools_of_length(2)]
      ok [THEN conjunct2, THEN conjunct2, THEN conjunct1, THEN mp, OF length_pools_of_length(3)]
      ok [THEN conjunct2, THEN conjunct2, THEN conjunct2, THEN mp, OF length_pools_of_length(4)]
      s
      wrap [THEN conjunct2, THEN conjunct2, THEN conjunct2, THEN mp, OF g]
      fatal [THEN conjunct1, THEN mp, OF length_pools_of_length(1)]
      fatal [THEN conjunct2, THEN conjunct1, THEN mp, OF length_pools_of_length(2)]
      fatal [THEN conjunct2, THEN conjunct2, THEN conjunct1, THEN mp, OF length_pools_of_length(3)]
      fatal [THEN conjunct2, THEN conjunct2, THEN conjunct2, THEN mp, OF length_pools_of_length(4)]
    by (intro conjI) assumption+
qed

subsection \<open>Registers of emitted instructions\<close>

lemmas alloc_defs = allocRegister_def classKind_def raise_def word_sless_alt Let_def

lemma alloc_three_Int:
  "allocRegister (allocRegister (allocRegister (NewBuilder f) reflect_Int 1) reflect_Int 2)
     reflect_Int 3 =
     (NewBuilder f)\<lparr>maxRegs := [reflect_Int \<mapsto> 3], numRegs := [reflect_Int \<mapsto> 3]\<rparr>"
  by (simp add: alloc_defs NewBuilder_def)

lemma alloc_three_Float64:
  "allocRegister (allocRegister (allocRegister (NewBuilder f) reflect_Float64 1) reflect_Float64 2)
     reflect_Float64 3 =
     (NewBuilder f)\<lparr>maxRegs := [reflect_Float64 \<mapsto> 3], numRegs := [reflect_Float64 \<mapsto> 3]\<rparr>"
  by (simp add: alloc_defs NewBuilder_def)

lemma End_no_gotos:
  "gotos b = Some [] \<Longrightarrow>
   End b = Inr (b\<lparr>fn := (fn b)\<lparr>RegNum := commitAll (maxRegs b) (RegNum (fn b))\<rparr>,
                 gotos := None\<rparr>)"
  by (simp add: End_def bindP_def)

lemma commitAll_Int: "commitAll [reflect_Int \<mapsto> 3] [0, 0, 0, 0] = [3, 0, 0, 0]"
  by (simp add: commitAll_def all_kinds_def commit_def)

lemma commitAll_Float: "commitAll [reflect_Float64 \<mapsto> 3] [0, 0, 0, 0] = [0, 3, 0, 0]"
  by (simp add: commitAll_def all_kinds_def commit_def)

lemma commitAll_empty: "commitAll Map.empty rn = rn"
  by (simp add: commitAll_def all_kinds_def)

lemma sub_run_Float64:
  "sub_run pkg name reflect_Float64 =
     Inr ((NewScrigoFunction pkg name)
            \<lparr>RegNum := [3, 0, 0, 0],
             Body := [\<lparr>Op = Plain OpSubFloat64, A = 1, B = 2, C = 3\<rparr>]\<rparr>)"
proof -
  have op: "Sub (NewBuilder (NewScrigoFunction pkg name)) False 1 2 3 reflect_Float64 =
      Inr (emit ((NewBuilder (NewScrigoFunction pkg name))
                   \<lparr>maxRegs := [reflect_Int \<mapsto> 3], numRegs := [reflect_Int \<mapsto> 3]\<rparr>)
             \<lparr>Op = Plain OpSubFloat64, A = 1, B = 2, C = 3\<rparr>)"
    by (simp add: Sub_def bindP_def alloc_three_Int)
  show ?thesis
    unfolding sub_run_def op
    by (simp add: bindP_def End_no_gotos emit_def NewBuilder_def commitAll_Int
        NewScrigoFunction_def)
qed

lemma subInv_run_Float64:
  "subInv_run pkg name reflect_Float64 =
     Inr ((NewScrigoFunction pkg name)
            \<lparr>RegNum := [3, 0, 0, 0],
             Body := [\<lparr>Op = Plain OpSubInvFloat64, A = 1, B = 2, C = 3\<rparr>]\<rparr>)"
proof -
  have op: "SubInv (NewBuilder (NewScrigoFunction pkg name)) False 1 2 3 reflect_Float64 =
      Inr (emit ((NewBuilder (NewScrigoFunction pkg name))
                   \<lparr>maxRegs := [reflect_Int \<mapsto> 3], numRegs := [reflect_Int \<mapsto> 3]\<rparr>)
             \<lparr>Op = Plain OpSubInvFloat64, A = 1, B = 2, C = 3\<rparr>)"
    by (simp add: SubInv_def bindP_def alloc_three_Int)
  show ?thesis
    unfolding subInv_run_def op
    by (simp add: bindP_def End_no_gotos emit_def NewBuilder_def commitAll_Int
        NewScrigoFunction_def)
qed

lemma add_run_Float64:
  "add_run pkg name reflect_Float64 =
     Inr ((NewScrigoFunction pkg name)
            \<lparr>RegNum := [0, 3, 0, 0],
             Body := [\<lparr>Op = Plain OpAddFloat64, A = 1, B = 2, C = 3\<rparr>]\<rparr>)"
proof -
  have op: "Add (NewBuilder (NewScrigoFunction pkg name)) False 1 2 3 reflect_Float64 =
      Inr (emit ((NewBuilder (NewScrigoFunction pkg name))
                   \<lparr>maxRegs := [reflect_Float64 \<mapsto> 3], numRegs := [reflect_Float64 \<mapsto> 3]\<rparr>)
             \<lparr>Op = Plain OpAddFloat64, A = 1, B = 2, C = 3\<rparr>)"
    by (simp add: Add_def bindP_def alloc_three_Float64)
  show ?thesis
    unfolding add_run_def op
    by (simp add: bindP_def End_no_gotos emit_def NewBuilder_def commitAll_Float
        NewScrigoFunction_def)
qed

lemma selector_run_eq:
  "selector_run pkg name =
     Inr ((NewScrigoFunction pkg name)
            \<lparr>Body := [\<lparr>Op = Plain OpSelector, A = 1, B = 2, C = 3\<rparr>]\<rparr>)"
  by (simp add: selector_run_def bindP_def End_no_gotos emit_def NewBuilder_def commitAll_empty
      NewScrigoFunction_def Selector_def)

text \<open>
  Claim C3, evaluated where it fails. \<open>Sub\<close> and \<open>SubInv\<close> of kind \<open>Float64\<close> on the
  registers 1, 2 and 3 of a fresh builder leave the finished \<open>Float\<close> count \<open>RegNum[1]\<close>
  at 0 (they raise the \<open>Int\<close> count to 3 instead), and \<open>Selector\<close> on the registers 1 and 3
  leaves all four counts at 0: each emitted instruction has register operands above the
  finished count of their class. \<open>Add\<close> of the same kind on the same registers raises
  \<open>RegNum[1]\<close> to 3.
\<close>

theorem sub_float_registers_not_counted:
  "(case sub_run pkg name reflect_Float64 of
      Inl e \<Rightarrow> False
    | Inr (f :: 'v ScrigoFunction) \<Rightarrow>
        Body f = [\<lparr>Op = Plain OpSubFloat64, A = 1, B = 2, C = 3\<rparr>] \<and> RegNum f = [3, 0, 0, 0])
   \<and> (case subInv_run pkg name reflect_Float64 of
      Inl e \<Rightarrow> False
    | Inr (f :: 'v ScrigoFunction) \<Rightarrow>
        Body f = [\<lparr>Op = Plain OpSubInvFloat64, A = 1, B = 2, C = 3\<rparr>] \<and> RegNum f = [3, 0, 0, 0])
   \<and> (case selector_run pkg name of
      Inl e \<Rightarrow> False
    | Inr (f :: 'v ScrigoFunction) \<Rightarrow>
        Body f = [\<lparr>Op = Plain OpSelector, A = 1, B = 2, C = 3\<rparr>] \<and> RegNum f = [0, 0, 0, 0])
   \<and> (case add_run pkg name reflect_Float64 of
      Inl e \<Rightarrow> False
    | Inr (f :: 'v ScrigoFunction) \<Rightarrow>
        Body f = [\<lparr>Op = Plain OpAddFloat64, A = 1, B = 2, C = 3\<rparr>] \<and> RegNum f = [0, 3, 0, 0])"
  by (simp add: sub_run_Float64 subInv_run_Float64 selector_run_eq add_run_Float64
      NewScrigoFunction_def)

section \<open>Properties of the template parser\<close>

subsection \<open>Cases of a type switch\<close>

lemma not_a_type_None_iff:
  "not_a_type ext e = None \<longleftrightarrow>
     (\<exists>q name. e = Identifier q name \<and> name \<noteq> ''true'' \<and> name \<noteq> ''false'')"
  by (cases e) (auto simp add: not_a_type_def)

lemma not_a_type_Some:
  "not_a_type ext e = Some msg \<Longrightarrow> \<exists>what. msg = what @ '' is not a type''"
  by (cases e) (auto simp add: not_a_type_def split: if_splits)

lemma first_not_a_type_None_iff:
  "first_not_a_type ext es = None \<longleftrightarrow> (\<forall>e \<in> set es. not_a_type ext e = None)"
  by (induction es) (auto split: option.splits)

lemma first_not_a_type_Some:
  "first_not_a_type ext es = Some msg \<Longrightarrow> \<exists>what. msg = what @ '' is not a type''"
  by (induction es) (auto split: option.splits dest: not_a_type_Some)

lemma parseStatement_case_typeswitch:
  assumes kw: "(if ctx' p \<noteq> ContextNone then next_token (lex p) else Inr (tok0, lex p))
               = Inr (tok, rest)"
    and tok: "typ' tok = tokenCase"
    and anc: "ancestors p \<noteq> []"
    and parent: "last (ancestors p) = TypeSwitch sp cases"
    and exprs: "parseExprList ext None rest False False False False = Inr (es, tok2, rest2)"
    and ending: "typ' tok2 = (if ctx' p = ContextNone then tokenColon else tokenEndStatement)"
  shows "parseStatement ext p tok0 =
     (case first_not_a_type ext es of
        Some msg \<Rightarrow> Inl (SyntaxError \<lparr>Path = [], Pos = pos tok2, Err = msg\<rparr>)
      | None \<Rightarrow>
          Inr (p\<lparr>lex := rest2,
                 ancestors := butlast (ancestors p) @
                   [TypeSwitch sp (cases @
                      [Case ((pos tok0)\<lparr>End' := End' (pos tok2)\<rparr>) es [] False])]\<rparr>))"
proof -
  have "parseStatement ext p tok0 =
      parseCase ext (p\<lparr>lex := rest\<rparr>) (pos tok0) tok (TypeSwitch sp cases)"
    unfolding parseStatement_def kw
    using tok anc parent by (simp add: bindE_def cases_len_def Let_def)
  also have "\<dots> =
     (case first_not_a_type ext es of
        Some msg \<Rightarrow> Inl (SyntaxError \<lparr>Path = [], Pos = pos tok2, Err = msg\<rparr>)
      | None \<Rightarrow>
          Inr (p\<lparr>lex := rest2,
                 ancestors := butlast (ancestors p) @
                   [TypeSwitch sp (cases @
                      [Case ((pos tok0)\<lparr>End' := End' (pos tok2)\<rparr>) es [] False])]\<rparr>))"
    using exprs ending
    by (simp add: parseCase_def bindE_def is_TypeSwitch_def is_Switch_def syntax_panic_def
        addChild_def is_Case_def replace_parent_def Let_def split: option.splits)
  finally show ?thesis .
qed

text \<open>
  Claim C8, as amended. In a type switch, once the expressions of a \<open>case\<close> are parsed
  and followed by the token that ends the statement, the parser accepts the case, and
  adds it to the type switch, exactly when every expression is an identifier other than
  \<open>true\<close> and \<open>false\<close>. Any other expression, the boolean, int, float and string
  literals among them, is rejected with a syntax error at that token whose message ends
  with \<open>is not a type\<close>.
\<close>

theorem typeswitch_case_expressions:
  assumes kw: "(if ctx' p \<noteq> ContextNone then next_token (lex p) else Inr (tok0, lex p))
               = Inr (tok, rest)"
    and tok: "typ' tok = tokenCase"
    and anc: "ancestors p \<noteq> []"
    and parent: "last (ancestors p) = TypeSwitch sp cases"
    and exprs: "parseExprList ext None rest False False False False = Inr (es, tok2, rest2)"
    and ending: "typ' tok2 = (if ctx' p = ContextNone then tokenColon else tokenEndStatement)"
  shows
    "((\<forall>e \<in> set es. \<exists>q name. e = Identifier q name \<and> name \<noteq> ''true'' \<and> name \<noteq> ''false'') \<longrightarrow>
        parseStatement ext p tok0 =
          Inr (p\<lparr>lex := rest2,
                 ancestors := butlast (ancestors p) @
                   [TypeSwitch sp (cases @
                      [Case ((pos tok0)\<lparr>End' := End' (pos tok2)\<rparr>) es [] False])]\<rparr>))
     \<and> (\<not> (\<forall>e \<in> set es. \<exists>q name. e = Identifier q name \<and> name \<noteq> ''true'' \<and> name \<noteq> ''false'') \<longrightarrow>
        (\<exists>what. parseStatement ext p tok0 =
           Inl (SyntaxError \<lparr>Path = [], Pos = pos tok2, Err = what @ '' is not a type''\<rparr>)))"
proof (intro conjI impI)
  note run = parseStatement_case_typeswitch [OF kw tok anc parent exprs ending]
  {
    assume "\<forall>e \<in> set es. \<exists>q name. e = Identifier q name \<and> name \<noteq> ''true'' \<and> name \<noteq> ''false''"
    then have "first_not_a_type ext es = None"
      by (simp add: first_not_a_type_None_iff not_a_type_None_iff)
    with run show "parseStatement ext p tok0 =
          Inr (p\<lparr>lex := rest2,
                 ancestors := butlast (ancestors p) @
                   [TypeSwitch sp (cases @
                      [Case ((pos tok0)\<lparr>End' := End' (pos tok2)\<rparr>) es [] False])]\<rparr>)"
      by simp
  }
  {
    assume "\<not> (\<forall>e \<in> set es. \<exists>q name. e = Identifier q name \<and> name \<noteq> ''true'' \<and> name \<noteq> ''false'')"
    then have "first_not_a_type ext es \<noteq> None"
      by (simp add: first_not_a_type_None_iff not_a_type_None_iff)
    then obtain msg where msg: "first_not_a_type ext es = Some msg" by auto
    from first_not_a_type_Some [OF msg] obtain what where "msg = what @ '' is not a type''"
      by auto
    with run msg show "\<exists>what. parseStatement ext p tok0 =
           Inl (SyntaxError \<lparr>Path = [], Pos = pos tok2, Err = what @ '' is not a type''\<rparr>)"
      by simp
  }
qed

lemma sample_case_parse:
  assumes True: "list_all (\<lambda>t. typ' t = tokenIdentifier \<or> typ' t = tokenNumber
                       \<or> typ' t = tokenComma \<or> typ' t = tokenPeriod) ts"
  shows "parseStatement (sample_externals es)
     (template_state [Tree [] [open_typeswitch] ContextHTML, open_typeswitch] (case_tokens ts))
     start_token =
    (case first_not_a_type (sample_externals es) es of
        Some msg \<Rightarrow> Inl (SyntaxError \<lparr>Path = [], Pos = at 40, Err = msg\<rparr>)
      | None \<Rightarrow>
          Inr ((template_state [Tree [] [open_typeswitch] ContextHTML, open_typeswitch]
                 (case_tokens ts))
               \<lparr>lex := [],
                 ancestors := [Tree [] [open_typeswitch] ContextHTML,
                   TypeSwitch (at 0) [Case (at 10) [Identifier (at 15) ''int''] [] False,
                      Case ((at 20)\<lparr>End' := 41\<rparr>) es [] False]]\<rparr>))"
proof -
  let ?p = "template_state [Tree [] [open_typeswitch] ContextHTML, open_typeswitch] (case_tokens ts)"
  let ?end = "tk tokenEndStatement 40 ''%}''"
  have skip: "dropWhile (\<lambda>t. typ' t = tokenIdentifier \<or> typ' t = tokenNumber
                       \<or> typ' t = tokenComma \<or> typ' t = tokenPeriod) (ts @ [?end]) = [?end]"
    using True by (simp add: dropWhile_append list_all_iff tk_def)
  have kw: "(if ctx' ?p \<noteq> ContextNone then next_token (lex ?p) else Inr (start_token, lex ?p))
      = Inr (tk tokenCase 23 ''case'', ts @ [?end])"
    by (simp add: template_state_def case_tokens_def next_token_def)
  have tok: "typ' (tk tokenCase 23 ''case'') = tokenCase" by (simp add: tk_def)
  have anc: "ancestors ?p \<noteq> []" by (simp add: template_state_def)
  have parent: "last (ancestors ?p) =
      TypeSwitch (at 0) [Case (at 10) [Identifier (at 15) ''int''] [] False]"
    by (simp add: template_state_def open_typeswitch_def)
  have exprs: "parseExprList (sample_externals es) None (ts @ [?end]) False False False False
      = Inr (es, ?end, [])"
    by (simp add: sample_externals_def sample_parseExprList_def skip)
  have ending: "typ' ?end = (if ctx' ?p = ContextNone then tokenColon else tokenEndStatement)"
    by (simp add: template_state_def tk_def)
  show ?thesis
    by (simp add: parseStatement_case_typeswitch [OF kw tok anc parent exprs ending])
       (simp add: template_state_def tk_def at_def start_token_def split: option.splits)
qed

theorem typeswitch_case_expressions_witness:
  "parseStatement (sample_externals [Identifier (at 28) ''x''])
     (template_state [Tree [] [open_typeswitch] ContextHTML, open_typeswitch]
        (case_tokens [tk tokenIdentifier 28 ''x'']))
     start_token =
     Inr ((template_state [Tree [] [open_typeswitch] ContextHTML, open_typeswitch]
             (case_tokens [tk tokenIdentifier 28 ''x'']))
          \<lparr>lex := [],
            ancestors := butlast [Tree [] [open_typeswitch] ContextHTML, open_typeswitch] @
              [TypeSwitch (at 0) ([Case (at 10) [Identifier (at 15) ''int''] [] False] @
                 [Case ((pos start_token)\<lparr>End' := End' (pos (tk tokenEndStatement 40 ''%}''))\<rparr>)
                    [Identifier (at 28) ''x''] [] False])]\<rparr>)
   \<and> (\<exists>what. parseStatement (sample_externals [Int_expr (at 28) 1])
     (template_state [Tree [] [open_typeswitch] ContextHTML, open_typeswitch]
        (case_tokens [tk tokenNumber 28 ''1'']))
     start_token =
     Inl (SyntaxError \<lparr>Path = [], Pos = pos (tk tokenEndStatement 40 ''%}''),
                       Err = what @ '' is not a type''\<rparr>))"
proof -
  let ?as = "[Tree [] [open_typeswitch] ContextHTML, open_typeswitch]"
  let ?end = "tk tokenEndStatement 40 ''%}''"
  let ?kw = "tk tokenCase 23 ''case''"
  have tok: "typ' ?kw = tokenCase" by (simp add: tk_def)
  have parent: "\<And>l. last (ancestors (template_state ?as l)) =
      TypeSwitch (at 0) [Case (at 10) [Identifier (at 15) ''int''] [] False]"
    by (simp add: template_state_def open_typeswitch_def)
  have anc: "\<And>l. ancestors (template_state ?as l) \<noteq> []" by (simp add: template_state_def)
  have as: "\<And>l. ancestors (template_state ?as l) = ?as" by (simp add: template_state_def)
  have ending: "\<And>l. typ' ?end =
      (if ctx' (template_state ?as l) = ContextNone then tokenColon else tokenEndStatement)"
    by (simp add: template_state_def tk_def)
  have kw: "\<And>ts. (if ctx' (template_state ?as (case_tokens ts)) \<noteq> ContextNone
        then next_token (lex (template_state ?as (case_tokens ts)))
        else Inr (start_token, lex (template_state ?as (case_tokens ts))))
      = Inr (?kw, ts @ [?end])"
    by (simp add: template_state_def case_tokens_def next_token_def)
  have e1: "parseExprList (sample_externals [Identifier (at 28) ''x'']) None
      ([tk tokenIdentifier 28 ''x''] @ [?end]) False False False False
      = Inr ([Identifier (at 28) ''x''], ?end, [])"
    by (simp add: sample_externals_def sample_parseExprList_def tk_def)
  have e2: "parseExprList (sample_externals [Int_expr (at 28) 1]) None
      ([tk tokenNumber 28 ''1''] @ [?end]) False False False False
      = Inr ([Int_expr (at 28) 1], ?end, [])"
    by (simp add: sample_externals_def sample_parseExprList_def tk_def)
  have good: "\<forall>e \<in> set [Identifier (at 28) ''x''].
      \<exists>q name. e = Identifier q name \<and> name \<noteq> ''true'' \<and> name \<noteq> ''false''"
    by simp
  have bad: "\<not> (\<forall>e \<in> set [Int_expr (at 28) 1].
      \<exists>q name. e = Identifier q name \<and> name \<noteq> ''true'' \<and> name \<noteq> ''false'')"
    by simp
  note w1 = typeswitch_case_expressions [OF kw tok anc parent e1 ending,
      THEN conjunct1, THEN mp, OF good]
  note w2 = typeswitch_case_expressions [OF kw tok anc parent e2 ending,
      THEN conjunct2, THEN mp, OF bad]
  show ?thesis
    using w1 w2 by (simp only: as) 
qed

text \<open>
  Claim C8 as stated fails on the qualified name \<open>pkg.T\<close>: the selector is none of the
  boolean, int, float and string literals, and \<open>{% case pkg.T %}\<close> in a type switch is
  rejected with \<open>pkg.T is not a type\<close>.
\<close>

theorem typeswitch_case_selector_rejected:
  "parseStatement (sample_externals [Selector_expr (at 28) (Identifier (at 28) ''pkg'') ''T''])
     (template_state [Tree [] [open_typeswitch] ContextHTML, open_typeswitch]
        (case_tokens [tk tokenIdentifier 28 ''pkg'', tk tokenPeriod 31 ''.'',
                      tk tokenIdentifier 32 ''T'']))
     start_token =
     Inl (SyntaxError \<lparr>Path = [], Pos = at 40, Err = ''pkg.T is not a type''\<rparr>)"
proof -
  have "list_all (\<lambda>t. typ' t = tokenIdentifier \<or> typ' t = tokenNumber
                       \<or> typ' t = tokenComma \<or> typ' t = tokenPeriod)
          [tk tokenIdentifier 28 ''pkg'', tk tokenPeriod 31 ''.'', tk tokenIdentifier 32 ''T'']"
    by (simp add: tk_def)
  from sample_case_parse [OF this] show ?thesis
    by (simp add: not_a_type_def sample_externals_def sample_exprString_def)
qed

subsection \<open>The position of \<open>extends\<close>\<close>





section \<open>Properties of the expander\<close>

lemmas expander_defs =
  parsePath_body_def cache_get_def cycle_reader_def expand_def expand_reference_def
  abs_path_def sample_helpers_def reference_error_def andThen_def fill_path_def

lemma include_b_cycle:
  assumes "paths pp = [''/a'']" and "trees pp (''/b'', ContextHTML) = None"
    and "reader pp = cycle_reader"
  shows "\<exists>pp'. parsePath (Suc (Suc n)) sample_helpers pp ''/b'' ContextHTML =
           Some (Inl (CycleError ''include /a''), pp')"
  using assms by (simp add: expander_defs)

lemma expand_include_error:
  assumes "abs_path h pp npath = Inr ap" and "P pp ap c = Some (Inl e, pp')"
  shows "expand P h [Include p npath c t] pp =
     Some (Inl (reference_error h ''included path'' ''include'' p npath ap e), pp')"
  using assms by (simp add: expand_def expand_reference_def andThen_def)

lemma parsePath_body_expand_error:
  assumes "path \<notin> set (paths pp)" and "trees pp (path, cx) = None"
    and "reader pp path cx = Inr (Tree tp nodes tc)"
    and "expand P h nodes
           (pp\<lparr>trees := (trees pp)((path, cx) \<mapsto> Reserved), paths := paths pp @ [path]\<rparr>)
         = Some (Inl e, pp')"
  shows "parsePath_body P h pp path cx =
     Some (Inl (fill_path e path), pp'\<lparr>trees := cache_done (trees pp') path cx\<rparr>)"
  using assms by (simp add: parsePath_body_def cache_get_def)

lemma include_a_cycle:
  assumes "paths pp = []" and "trees pp = Map.empty" and "reader pp = cycle_reader"
  shows "\<exists>pp'. parsePath (Suc (Suc (Suc n))) sample_helpers pp ''/a'' ContextHTML =
           Some (Inl (CycleError ''include include /a''), pp')"
proof -
  let ?pp = "pp\<lparr>trees := (trees pp)((''/a'', ContextHTML) \<mapsto> Reserved),
                paths := paths pp @ [''/a'']\<rparr>"
  let ?P = "parsePath (Suc (Suc n)) sample_helpers"
  have "paths ?pp = [''/a'']" and "trees ?pp (''/b'', ContextHTML) = None"
    and "reader ?pp = cycle_reader"
    using assms by simp_all
  from include_b_cycle [OF this, of n] obtain pp' where
    inner: "?P ?pp ''/b'' ContextHTML = Some (Inl (CycleError ''include /a''), pp')" by blast
  have ab: "abs_path sample_helpers ?pp ''/b'' = Inr ''/b''"
    by (simp add: abs_path_def sample_helpers_def)
  have notin: "''/a'' \<notin> set (paths pp)" and miss: "trees pp (''/a'', ContextHTML) = None"
    and rd: "reader pp ''/a'' ContextHTML =
      Inr (Tree [] [Include (at 0) ''/b'' ContextHTML None] ContextHTML)"
    using assms by (simp_all add: cycle_reader_def)
  note ex = expand_include_error [where P = "?P" and h = sample_helpers and pp = "?pp"
      and p = "at 0" and t = None, OF ab inner]
  note body = parsePath_body_expand_error [where P = "?P" and h = sample_helpers,
      OF notin miss rd ex]
  have "parsePath (Suc (Suc (Suc n))) sample_helpers pp ''/a'' ContextHTML =
      parsePath_body ?P sample_helpers pp ''/a'' ContextHTML"
    by simp
  also note body
  also have "fill_path (reference_error sample_helpers ''included path'' ''include'' (at 0)
        ''/b'' ''/b'' (CycleError ''include /a'')) ''/a'' = CycleError ''include include /a''"
    by (simp add: fill_path_def reference_error_def)
  finally show ?thesis by blast
qed

text \<open>
  Claim C5, evaluated where it fails. With \<open>/a\<close> holding \<open>{% include "/b" %}\<close> and \<open>/b\<close>
  holding \<open>{% include "/a" %}\<close>, \<open>Parse("/a")\<close> on a parser with an empty cache returns,
  for every bound of at least 3 on the depth, a \<open>CycleError\<close> whose text is
  \<open>cycle not allowed\<close>, a line feed, \<open>/a\<close>, a line feed and a tab, and
  \<open>include include /a\<close>: the path \<open>/b\<close> is not in it.
\<close>

theorem include_cycle_text:
  "map_option fst
     (Parse (Suc (Suc (Suc n))) sample_helpers \<lparr>reader = cycle_reader, trees = Map.empty\<rparr>
        ''/a'' ContextHTML) =
     Some (Inl (CycleError (''/a'' @ [CHR 0x0A, CHR 0x09] @ ''include include /a'')))
   \<and> CycleError_Error (''/a'' @ [CHR 0x0A, CHR 0x09] @ ''include include /a'') =
       ''cycle not allowed'' @ [CHR 0x0A] @ ''/a'' @ [CHR 0x0A, CHR 0x09] @ ''include include /a''"
proof -
  let ?pp = "\<lparr>reader = cycle_reader, trees = Map.empty, paths = []\<rparr>"
  have "paths ?pp = []" and "trees ?pp = Map.empty" and "reader ?pp = cycle_reader"
    by simp_all
  from include_a_cycle [OF this, of n] obtain pp' where
    "parsePath (Suc (Suc (Suc n))) sample_helpers ?pp ''/a'' ContextHTML =
           Some (Inl (CycleError ''include include /a''), pp')" by blast
  then show ?thesis
    by (simp add: Parse_def sample_helpers_def CycleError_Error_def del: parsePath.simps)
qed

end
